theory Spec2Isabelle
  imports Main
begin

section \<open>The training entry point of WaSR (train.py)\<close>

text \<open>
  The file train.py is an orchestration script: \<open>get_arguments\<close> declares the command
  line, \<open>train_wasr\<close> builds the data loaders, the model, the logger, the callbacks and
  the trainer, and calls \<open>trainer.fit\<close>. Everything it calls lives elsewhere (argparse,
  torch, pytorch_lightning, the packages \<open>wasr\<close> and \<open>datasets\<close>); those parts enter
  the model as parameters, or as definitions marked as modelled from the specification.
\<close>

subsection \<open>Errors\<close>

text \<open>
  The error classes are the ones of the specification's taxonomy. In Python a
  \<open>ConfigError\<close> is argparse's \<open>parser.error\<close> (usage message, exit status 2);
  \<open>HelpExit\<close> is the exit with status 0 after \<open>-h\<close>; \<open>ValueError\<close> is what a
  library raises on an argument it refuses; \<open>UnboundLocalError\<close> is raised when
  \<open>model\<close> is read although no branch of the variant dispatch assigned it.
\<close>

datatype config_error =
    Required "string list"
  | ExpectedOneArgument string
  | IgnoredExplicitArgument string
  | InvalidValue string string string
  | InvalidChoice string string
  | Unrecognized "string list"

datatype error =
    HelpExit
  | ConfigError config_error
  | DataError "string option"
  | ValueError string
  | WeightLoadError
  | UnboundLocalError

subsection \<open>The module constants (lines 16-28)\<close>

definition DEVICE_BATCH_SIZE :: int where "DEVICE_BATCH_SIZE = 3"
definition NUM_CLASSES :: int where "NUM_CLASSES = 3"
definition PATIENCE :: "int option" where "PATIENCE = None"
definition LOG_STEPS :: int where "LOG_STEPS = 20"
definition NUM_WORKERS :: int where "NUM_WORKERS = 1"
definition NUM_GPUS :: int where "NUM_GPUS = - 1"
definition RANDOM_SEED :: "int option" where "RANDOM_SEED = None"
definition OUTPUT_DIR :: string where "OUTPUT_DIR = ''output''"
definition PRETRAINED_DEEPLAB :: bool where "PRETRAINED_DEEPLAB = True"
definition PRECISION :: int where "PRECISION = 32"
definition MODEL :: string where "MODEL = ''wasr_resnet101''"
definition MONITOR_VAR :: string where "MONITOR_VAR = ''val/iou/obstacle''"
definition MONITOR_VAR_MODE :: string where "MONITOR_VAR_MODE = ''max''"

subsection \<open>The parsed arguments\<close>

text \<open>
  \<open>--gpus\<close> has no \<open>type=\<close>: its default is the integer \<open>NUM_GPUS\<close>, a value given on
  the command line stays a string.
\<close>

datatype gpus_arg = GpusInt int | GpusStr string

text \<open>
  The namespace that \<open>parse_args\<close> returns, one field per \<open>dest\<close>. The options that
  \<open>LitModel.add_argparse_args\<close> contributes (among them \<open>epochs\<close>, which
  \<open>train_wasr\<close> reads) are not declared in train.py; they are the component
  \<open>hparams\<close> of a type the model leaves open.
\<close>

record 'h args =
  train_file :: "string option"
  val_file :: "string option"
  batch_size :: int
  validation :: bool
  num_classes :: int
  patience :: "int option"
  log_steps :: int
  gpus :: gpus_arg
  workers :: int
  random_seed :: "int option"
  pretrained :: bool
  output_dir :: string
  model_name :: "string option"
  pretrained_weights :: "string option"
  imu :: bool
  model :: string
  monitor_metric :: string
  monitor_metric_mode :: string
  no_augmentation :: bool
  precision :: int
  resume_from :: "string option"
  hparams :: 'h

subsection \<open>The conversions named by \<open>type=\<close>\<close>

text \<open>
  \<open>type=str\<close> is the identity and never fails. \<open>type=bool\<close> is Python's \<open>bool\<close> on a
  string: true exactly for the non-empty strings. \<open>type=int\<close> is Python's builtin
  \<open>int\<close> on a string; what it accepts depends on the interpreter (Unicode digits and
  whitespace, a limit on the number of digits), so it is a parameter of the parser,
  written \<open>py_int\<close>: \<open>None\<close> where the builtin raises.
\<close>

definition py_str :: "string \<Rightarrow> string option" where
  "py_str s = Some s"

definition py_bool :: "string \<Rightarrow> bool option" where
  "py_bool s = Some (s \<noteq> [])"

subsection \<open>argparse actions\<close>

text \<open>
  The command line is taken after argparse has split it into options and their
  arguments: a list of pairs of an option string and the argument given with it, if
  any. An option string is the declared one that argparse resolved the word to, or a
  word it could not resolve. An action consumes one such pair and updates the
  namespace, or ends the parse.
\<close>

type_synonym raw_args = "(string \<times> string option) list"

type_synonym 'h action = "string option \<Rightarrow> 'h args \<Rightarrow> error + 'h args"

text \<open>
  The default action \<open>store\<close> takes exactly one argument, converts it with \<open>type\<close>
  (named for the message), checks it against \<open>choices\<close> when there are any, and stores
  it under \<open>dest\<close>.
\<close>

definition store ::
  "string \<Rightarrow> (string \<Rightarrow> 'v option) \<Rightarrow> 'v list option \<Rightarrow>
   ('v \<Rightarrow> 'h args \<Rightarrow> 'h args) \<Rightarrow> string \<Rightarrow> 'h action" where
  "store tyname conv choices dest flag v a =
     (case v of
        None \<Rightarrow> Inl (ConfigError (ExpectedOneArgument flag))
      | Some s \<Rightarrow>
          (case conv s of
             None \<Rightarrow> Inl (ConfigError (InvalidValue flag tyname s))
           | Some x \<Rightarrow>
               (case choices of
                  None \<Rightarrow> Inr (dest x a)
                | Some cs \<Rightarrow>
                    if x \<in> set cs then Inr (dest x a)
                    else Inl (ConfigError (InvalidChoice flag s)))))"

definition store_true :: "('h args \<Rightarrow> 'h args) \<Rightarrow> string \<Rightarrow> 'h action" where
  "store_true dest flag v a =
     (case v of
        None \<Rightarrow> Inr (dest a)
      | Some s \<Rightarrow> Inl (ConfigError (IgnoredExplicitArgument flag)))"

text \<open>
  The action of \<open>-h\<close> and \<open>--help\<close>, which every parser has by default: it takes no
  argument, prints the help and exits with status 0.
\<close>

definition help_action :: "string \<Rightarrow> 'h action" where
  "help_action flag v a =
     (case v of
        None \<Rightarrow> Inl HelpExit
      | Some s \<Rightarrow> Inl (ConfigError (IgnoredExplicitArgument flag)))"

definition add_argument :: "string \<Rightarrow> (string \<Rightarrow> 'h action) \<Rightarrow> string \<times> 'h action" where
  "add_argument flag act = (flag, act flag)"

subsection \<open>\<open>get_arguments\<close> (lines 32-86)\<close>

text \<open>The namespace before any option is consumed: every \<open>dest\<close> at its default.\<close>

definition defaults :: "'h \<Rightarrow> 'h args" where
  "defaults h =
     \<lparr> train_file = None,
       val_file = None,
       batch_size = DEVICE_BATCH_SIZE,
       validation = False,
       num_classes = NUM_CLASSES,
       patience = PATIENCE,
       log_steps = LOG_STEPS,
       gpus = GpusInt NUM_GPUS,
       workers = NUM_WORKERS,
       random_seed = RANDOM_SEED,
       pretrained = PRETRAINED_DEEPLAB,
       output_dir = OUTPUT_DIR,
       model_name = None,
       pretrained_weights = None,
       imu = False,
       model = MODEL,
       monitor_metric = MONITOR_VAR,
       monitor_metric_mode = MONITOR_VAR_MODE,
       no_augmentation = False,
       precision = PRECISION,
       resume_from = None,
       hparams = h \<rparr>"

text \<open>The options, in the order of the \<open>add_argument\<close> calls.\<close>

definition parser :: "(string \<Rightarrow> int option) \<Rightarrow> (string \<times> 'h action) list" where
  "parser py_int =
     [ add_argument ''-h'' help_action,
       add_argument ''--help'' help_action,
       add_argument ''--train-file''
         (store ''str'' py_str None (\<lambda>v a. a\<lparr>train_file := Some v\<rparr>)),
       add_argument ''--val-file''
         (store ''str'' py_str None (\<lambda>v a. a\<lparr>val_file := Some v\<rparr>)),
       add_argument ''--batch-size''
         (store ''int'' py_int None (\<lambda>v a. a\<lparr>batch_size := v\<rparr>)),
       add_argument ''--validation''
         (store_true (\<lambda>a. a\<lparr>validation := True\<rparr>)),
       add_argument ''--num-classes''
         (store ''int'' py_int None (\<lambda>v a. a\<lparr>num_classes := v\<rparr>)),
       add_argument ''--patience''
         (store ''int'' py_int None (\<lambda>v a. a\<lparr>patience := Some v\<rparr>)),
       add_argument ''--log-steps''
         (store ''int'' py_int None (\<lambda>v a. a\<lparr>log_steps := v\<rparr>)),
       add_argument ''--gpus''
         (store ''None'' py_str None (\<lambda>v a. a\<lparr>gpus := GpusStr v\<rparr>)),
       add_argument ''--workers''
         (store ''int'' py_int None (\<lambda>v a. a\<lparr>workers := v\<rparr>)),
       add_argument ''--random-seed''
         (store ''int'' py_int None (\<lambda>v a. a\<lparr>random_seed := Some v\<rparr>)),
       add_argument ''--pretrained''
         (store ''bool'' py_bool None (\<lambda>v a. a\<lparr>pretrained := v\<rparr>)),
       add_argument ''--output-dir''
         (store ''str'' py_str None (\<lambda>v a. a\<lparr>output_dir := v\<rparr>)),
       add_argument ''--model-name''
         (store ''str'' py_str None (\<lambda>v a. a\<lparr>model_name := Some v\<rparr>)),
       add_argument ''--pretrained-weights''
         (store ''str'' py_str None (\<lambda>v a. a\<lparr>pretrained_weights := Some v\<rparr>)),
       add_argument ''--imu''
         (store_true (\<lambda>a. a\<lparr>imu := True\<rparr>)),
       add_argument ''--model''
         (store ''str'' py_str (Some [''wasr_resnet101'', ''wasr_resnet50'', ''deeplab''])
            (\<lambda>v a. a\<lparr>model := v\<rparr>)),
       add_argument ''--monitor-metric''
         (store ''str'' py_str None (\<lambda>v a. a\<lparr>monitor_metric := v\<rparr>)),
       add_argument ''--monitor-metric-mode''
         (store ''str'' py_str (Some [''min'', ''max''])
            (\<lambda>v a. a\<lparr>monitor_metric_mode := v\<rparr>)),
       add_argument ''--no-augmentation''
         (store_true (\<lambda>a. a\<lparr>no_augmentation := True\<rparr>)),
       add_argument ''--precision''
         (store ''int'' py_int (Some [16, 32]) (\<lambda>v a. a\<lparr>precision := v\<rparr>)),
       add_argument ''--resume-from''
         (store ''str'' py_str None (\<lambda>v a. a\<lparr>resume_from := Some v\<rparr>)) ]"

text \<open>The options with \<open>required=True\<close>.\<close>

definition required_options :: "string list" where
  "required_options = [''--model-name'']"

text \<open>
  \<open>LitModel.add_argparse_args\<close> (package \<open>wasr.train\<close>) is not part of train.py. What it
  adds to the parser is a parameter: the defaults of its options, their actions on the
  hyper-parameters, the ones that are required, and how \<open>args.epochs\<close> is read.
  Its option strings are taken to differ from the ones of train.py (argparse refuses a
  parser with a conflict), so the order of the lookup below does not matter.
\<close>

record 'h lit_parser =
  lit_defaults :: 'h
  lit_actions :: "(string \<times> (string option \<Rightarrow> 'h \<Rightarrow> config_error + 'h)) list"
  lit_required :: "string list"
  lit_epochs :: "'h \<Rightarrow> int"

definition lit_action :: "(string option \<Rightarrow> 'h \<Rightarrow> config_error + 'h) \<Rightarrow> 'h action" where
  "lit_action act v a =
     (case act v (hparams a) of
        Inl e \<Rightarrow> Inl (ConfigError e)
      | Inr h \<Rightarrow> Inr (a\<lparr>hparams := h\<rparr>))"

definition add_argparse_args ::
  "'h lit_parser \<Rightarrow> (string \<times> 'h action) list \<Rightarrow> (string \<times> 'h action) list" where
  "add_argparse_args lit p = p @ map (\<lambda>(flag, act). (flag, lit_action act)) (lit_actions lit)"

text \<open>
  argparse consumes the options from left to right. A known option runs its action, and
  a failing action ends the parse at once; an unknown option is set aside with its
  argument. The result is the namespace, the options seen and the strings set aside.
\<close>

fun consume ::
  "(string \<times> 'h action) list \<Rightarrow> raw_args \<Rightarrow> 'h args \<Rightarrow> string list \<Rightarrow> string list \<Rightarrow>
   error + ('h args \<times> string list \<times> string list)" where
  "consume p [] a seen extras = Inr (a, seen, extras)"
| "consume p ((flag, v) # rest) a seen extras =
     (case map_of p flag of
        None \<Rightarrow> consume p rest a seen (extras @ flag # (case v of None \<Rightarrow> [] | Some s \<Rightarrow> [s]))
      | Some act \<Rightarrow>
          (case act v a of
             Inl e \<Rightarrow> Inl e
           | Inr a' \<Rightarrow> consume p rest a' (flag # seen) extras))"

text \<open>
  After the last option argparse reports the required options that were not seen, then
  the strings it could not recognise.
\<close>

definition parse_args ::
  "(string \<times> 'h action) list \<Rightarrow> string list \<Rightarrow> 'h args \<Rightarrow> raw_args \<Rightarrow> error + 'h args" where
  "parse_args p required dflt input_args =
     (case consume p input_args dflt [] [] of
        Inl e \<Rightarrow> Inl e
      | Inr (a, seen, extras) \<Rightarrow>
          (let missing = filter (\<lambda>flag. flag \<notin> set seen) required in
           if missing \<noteq> [] then Inl (ConfigError (Required missing))
           else if extras \<noteq> [] then Inl (ConfigError (Unrecognized extras))
           else Inr a))"

definition get_arguments ::
  "(string \<Rightarrow> int option) \<Rightarrow> 'h lit_parser \<Rightarrow> raw_args \<Rightarrow> error + 'h args" where
  "get_arguments py_int lit input_args =
     parse_args (add_argparse_args lit (parser py_int)) (required_options @ lit_required lit)
       (defaults (lit_defaults lit)) input_args"

subsection \<open>Datasets and loaders\<close>

text \<open>
  The two transforms are opaque objects of the package \<open>datasets.transforms\<close>:
  \<open>get_augmentation_transform()\<close> and \<open>PytorchHubNormalization()\<close>.
\<close>

datatype transform = AugmentationTransform

datatype normalization = PytorchHubNormalization

definition get_augmentation_transform :: transform where
  "get_augmentation_transform = AugmentationTransform"

text \<open>A dataset object: the samples of its manifest and the constructor's arguments.\<close>

record 's dataset =
  ds_samples :: "'s list"
  ds_transform :: "transform option"
  ds_normalize_t :: "normalization option"
  ds_include_original :: bool

text \<open>
  Modelled from the spec: the constructor \<open>MaSTr1325Dataset\<close> (package
  \<open>datasets.mastr\<close>, not part of train.py). It fails with a \<open>DataError\<close> if the manifest
  path is missing or unreadable. The readable manifests are the domain of \<open>fs\<close>, which
  gives the samples a manifest lists.
\<close>

definition MaSTr1325Dataset ::
  "(string \<Rightarrow> 's list option) \<Rightarrow> string option \<Rightarrow> transform option \<Rightarrow>
   normalization option \<Rightarrow> bool \<Rightarrow> error + 's dataset" where
  "MaSTr1325Dataset fs dataset_file transform normalize_t include_original =
     (case dataset_file of
        None \<Rightarrow> Inl (DataError None)
      | Some path \<Rightarrow>
          (case fs path of
             None \<Rightarrow> Inl (DataError (Some path))
           | Some xs \<Rightarrow>
               Inr \<lparr> ds_samples = xs,
                     ds_transform = transform,
                     ds_normalize_t = normalize_t,
                     ds_include_original = include_original \<rparr>))"

text \<open>
  A loader wraps a dataset with the batch size, the shuffling policy, the number of
  workers and the drop-last policy.
\<close>

record 's data_loader =
  dl_dataset :: "'s dataset"
  dl_batch_size :: int
  dl_shuffle :: bool
  dl_num_workers :: int
  dl_drop_last :: bool

text \<open>
  Modelled from the spec: the constructor \<open>torch.utils.data.DataLoader\<close> (torch, not
  part of train.py), whose keyword defaults are \<open>shuffle=False\<close> and
  \<open>drop_last=False\<close>. The batch size must be positive and the number of workers must
  not be negative; the library checks its arguments when the loader is constructed and
  raises a \<open>ValueError\<close> that names the argument: a negative number of workers, then a
  shuffled loader over a dataset without samples, then a batch size that is not
  positive.
\<close>

definition DataLoader ::
  "'s dataset \<Rightarrow> int \<Rightarrow> bool \<Rightarrow> int \<Rightarrow> bool \<Rightarrow> error + 's data_loader" where
  "DataLoader ds bs shuffle nw drop_last =
     (if nw < 0 then Inl (ValueError ''num_workers'')
      else if shuffle \<and> ds_samples ds = [] then Inl (ValueError ''num_samples'')
      else if bs \<le> 0 then Inl (ValueError ''batch_size'')
      else Inr \<lparr> dl_dataset = ds,
                 dl_batch_size = bs,
                 dl_shuffle = shuffle,
                 dl_num_workers = nw,
                 dl_drop_last = drop_last \<rparr>)"

text \<open>
  Modelled from the spec: how a loader yields batches (torch, not part of train.py).
  The indices come in the sampler's order and are grouped into batches of the batch
  size; the trailing partial batch is dropped under drop-last and kept otherwise.
  \<open>batch\<close> is the batch being filled.
\<close>

fun batch_sampler :: "nat \<Rightarrow> bool \<Rightarrow> 'a list \<Rightarrow> 'a list \<Rightarrow> 'a list list" where
  "batch_sampler n drop_last batch [] =
     (if batch \<noteq> [] \<and> \<not> drop_last then [batch] else [])"
| "batch_sampler n drop_last batch (i # rest) =
     (if length (batch @ [i]) = n then (batch @ [i]) # batch_sampler n drop_last [] rest
      else batch_sampler n drop_last (batch @ [i]) rest)"

text \<open>
  Modelled from the spec: the order in which a loader visits its dataset. An unshuffled
  loader goes through the indices in order; a shuffled one follows \<open>perm\<close>, the
  permutation that the seeded random generator draws.
\<close>

definition sampler :: "'s data_loader \<Rightarrow> nat list \<Rightarrow> nat list" where
  "sampler dl perm =
     (if dl_shuffle dl then perm else [0 ..< length (ds_samples (dl_dataset dl))])"

text \<open>
  Modelled from the spec: the batches of samples that one pass over a loader yields.
\<close>

definition batches :: "'s data_loader \<Rightarrow> nat list \<Rightarrow> 's list list" where
  "batches dl perm =
     map (map (\<lambda>i. ds_samples (dl_dataset dl) ! i))
       (batch_sampler (nat (dl_batch_size dl)) (dl_drop_last dl) [] (sampler dl perm))"

subsection \<open>Weight blobs and models\<close>

text \<open>
  What \<open>torch.load\<close> returns: a mapping from names to tensors or to further mappings.
  A tensor is its bytes.
\<close>

datatype pyobj = Tensor "nat list" | Dict "(string \<times> pyobj) list"

subsection \<open>The world outside train.py\<close>

text \<open>
  \<open>fresh_seed\<close> is the seed the random generator yields when none is given;
  \<open>manifests\<close> are the readable manifest files; the three constructors of the package
  \<open>wasr.models\<close> are opaque factories; \<open>torch_load\<close> gives the mapping stored in a
  readable weight file; \<open>load_state_dict\<close> is the model's method of that name.
\<close>

record ('m, 's) env =
  fresh_seed :: int
  manifests :: "string \<Rightarrow> 's list option"
  wasr_deeplabv2_resnet101 :: "int \<Rightarrow> bool \<Rightarrow> bool \<Rightarrow> 'm"
  wasr_deeplabv2_resnet50 :: "int \<Rightarrow> bool \<Rightarrow> 'm"
  deeplabv3_resnet101 :: "int \<Rightarrow> bool \<Rightarrow> 'm"
  torch_load :: "string \<Rightarrow> (string \<times> pyobj) list option"
  load_state_dict :: "'m \<Rightarrow> pyobj \<Rightarrow> error + 'm"

text \<open>
  Modelled from the spec: \<open>pl.seed_everything\<close> (pytorch_lightning, not part of
  train.py). A seed that is supplied is the seed; otherwise one is generated.
\<close>

definition seed_everything :: "('m, 's) env \<Rightarrow> int option \<Rightarrow> int" where
  "seed_everything env seed = (case seed of None \<Rightarrow> fresh_seed env | Some s \<Rightarrow> s)"

subsection \<open>Logger, callbacks, trainer\<close>

datatype logger = TensorBoardLogger string "string option"

text \<open>
  \<open>EarlyStopping monitor patience mode\<close> and
  \<open>ModelCheckpoint save_last save_top_k monitor mode\<close>.
\<close>

datatype callback =
    EarlyStopping string int string
  | ModelCheckpoint bool int string string

record trainer =
  tr_logger :: logger
  tr_gpus :: gpus_arg
  tr_max_epochs :: int
  tr_accelerator :: string
  tr_resume_from_checkpoint :: "string option"
  tr_callbacks :: "callback list"
  tr_sync_batchnorm :: bool
  tr_log_every_n_steps :: int
  tr_precision :: int

text \<open>\<open>LitModel(model, num_classes, args)\<close>: the wrapper keeps what it is given.\<close>

record ('m, 'h) lit_model =
  lm_model :: 'm
  lm_num_classes :: int
  lm_args :: "'h args"

text \<open>The effects of a run, in the order in which they happen.\<close>

datatype ('m, 's, 'h) event =
    PrintArgs "'h args"
  | SeedEverything "int option"
  | Print string
  | TorchLoad string
  | LogHyperparams logger "'h args"
  | Fit trainer "('m, 'h) lit_model" "'s data_loader" "'s data_loader option"

subsection \<open>\<open>train_wasr\<close> (lines 88-148)\<close>

text \<open>Lines 92-108: the transforms, the datasets and the loaders.\<close>

definition augmentation :: "'h args \<Rightarrow> transform option" where
  "augmentation a = (if \<not> no_augmentation a then Some get_augmentation_transform else None)"

definition build_data ::
  "('m, 's) env \<Rightarrow> 'h args \<Rightarrow> error + ('s data_loader \<times> 's data_loader option)" where
  "build_data env a =
     (let normalize_t = PytorchHubNormalization;
          transform = augmentation a
      in case MaSTr1325Dataset (manifests env) (train_file a) transform (Some normalize_t) False of
           Inl e \<Rightarrow> Inl e
         | Inr train_ds \<Rightarrow>
             (case DataLoader train_ds (batch_size a) True (workers a) True of
                Inl e \<Rightarrow> Inl e
              | Inr train_dl \<Rightarrow>
                  if validation a then
                    (case MaSTr1325Dataset (manifests env) (val_file a) None (Some normalize_t) True of
                       Inl e \<Rightarrow> Inl e
                     | Inr val_ds \<Rightarrow>
                         (case DataLoader val_ds (batch_size a) False (workers a) False of
                            Inl e \<Rightarrow> Inl e
                          | Inr val_dl \<Rightarrow> Inr (train_dl, Some val_dl)))
                  else Inr (train_dl, None)))"

text \<open>
  Lines 110-115: the dispatch on the variant. When no branch matches, \<open>model\<close> stays
  unbound (\<open>None\<close>).
\<close>

definition build_model :: "('m, 's) env \<Rightarrow> 'h args \<Rightarrow> 'm option" where
  "build_model env a =
     (if model a = ''wasr_resnet101'' then
        Some (wasr_deeplabv2_resnet101 env (num_classes a) (pretrained a) (imu a))
      else if model a = ''wasr_resnet50'' then
        Some (wasr_deeplabv2_resnet50 env (num_classes a) (imu a))
      else if model a = ''deeplab'' then
        Some (deeplabv3_resnet101 env (num_classes a) (pretrained a))
      else None)"

text \<open>
  Lines 120-124: the value under the key \<open>model\<close> is loaded when the mapping has that
  key, the mapping itself otherwise. Reading the unbound \<open>model\<close> raises.
\<close>

definition restore_weights ::
  "('m \<Rightarrow> pyobj \<Rightarrow> error + 'm) \<Rightarrow> 'm option \<Rightarrow> (string \<times> pyobj) list \<Rightarrow> error + 'm" where
  "restore_weights lsd m state_dict =
     (case map_of state_dict ''model'' of
        Some inner \<Rightarrow> (case m of None \<Rightarrow> Inl UnboundLocalError | Some mdl \<Rightarrow> lsd mdl inner)
      | None \<Rightarrow> (case m of None \<Rightarrow> Inl UnboundLocalError | Some mdl \<Rightarrow> lsd mdl (Dict state_dict)))"

text \<open>
  Lines 117-126: the optional restoration, then the read of \<open>model\<close> for the wrapper.
  A weight file that cannot be loaded is a \<open>WeightLoadError\<close>.
\<close>

definition load_pretrained ::
  "('m, 's) env \<Rightarrow> 'h args \<Rightarrow> 'm option \<Rightarrow> ('m, 's, 'h) event list \<times> (error + 'm)" where
  "load_pretrained env a m =
     (case pretrained_weights a of
        None \<Rightarrow> ([], case m of None \<Rightarrow> Inl UnboundLocalError | Some mdl \<Rightarrow> Inr mdl)
      | Some path \<Rightarrow>
          ([Print (''Loading weights from: '' @ path), TorchLoad path],
           case torch_load env path of
             None \<Rightarrow> Inl WeightLoadError
           | Some state_dict \<Rightarrow> restore_weights (load_state_dict env) m state_dict))"

text \<open>Line 128: \<open>os.path.join\<close> with a relative second component.\<close>

definition os_path_join :: "string \<Rightarrow> string \<Rightarrow> string" where
  "os_path_join a b =
     (if a = [] then b else if last a = CHR ''/'' then a @ b else a @ ''/'' @ b)"

text \<open>Lines 132-137: the callbacks.\<close>

definition build_callbacks :: "'h args \<Rightarrow> callback list" where
  "build_callbacks a =
     (if validation a then
        (case patience a of
           None \<Rightarrow> []
         | Some p \<Rightarrow> [EarlyStopping (monitor_metric a) p (monitor_metric_mode a)])
        @ [ModelCheckpoint True 1 (monitor_metric a) (monitor_metric_mode a)]
      else [])"

text \<open>Lines 139-147: the trainer.\<close>

definition build_trainer :: "'h lit_parser \<Rightarrow> logger \<Rightarrow> callback list \<Rightarrow> 'h args \<Rightarrow> trainer" where
  "build_trainer lit lg callbacks a =
     \<lparr> tr_logger = lg,
       tr_gpus = gpus a,
       tr_max_epochs = lit_epochs lit (hparams a),
       tr_accelerator = ''ddp'',
       tr_resume_from_checkpoint = resume_from a,
       tr_callbacks = callbacks,
       tr_sync_batchnorm = True,
       tr_log_every_n_steps = log_steps a,
       tr_precision = precision a \<rparr>"

text \<open>
  The whole of \<open>train_wasr\<close>: the events up to the first error, or up to the call of
  \<open>trainer.fit\<close>. Line 90 writes the seed back into \<open>args\<close>, so everything after it
  sees the namespace \<open>a'\<close>.
\<close>

definition train_wasr ::
  "('m, 's) env \<Rightarrow> 'h lit_parser \<Rightarrow> 'h args \<Rightarrow> ('m, 's, 'h) event list \<times> (error + unit)" where
  "train_wasr env lit a =
     (let a' = a\<lparr>random_seed := Some (seed_everything env (random_seed a))\<rparr>;
          ev_seed = [SeedEverything (random_seed a)]
      in case build_data env a' of
           Inl e \<Rightarrow> (ev_seed, Inl e)
         | Inr (train_dl, val_dl) \<Rightarrow>
             (case load_pretrained env a' (build_model env a') of
                (ev_load, Inl e) \<Rightarrow> (ev_seed @ ev_load, Inl e)
              | (ev_load, Inr mdl) \<Rightarrow>
                  (let lm = \<lparr> lm_model = mdl, lm_num_classes = num_classes a', lm_args = a' \<rparr>;
                       logs_path = os_path_join (output_dir a') ''logs'';
                       lg = TensorBoardLogger logs_path (model_name a');
                       callbacks = build_callbacks a';
                       tr = build_trainer lit lg callbacks a'
                   in (ev_seed @ ev_load @ [LogHyperparams lg a', Fit tr lm train_dl val_dl],
                       Inr ()))))"

subsection \<open>\<open>main\<close> (lines 151-155)\<close>

definition main ::
  "('m, 's) env \<Rightarrow> (string \<Rightarrow> int option) \<Rightarrow> 'h lit_parser \<Rightarrow> raw_args \<Rightarrow>
   ('m, 's, 'h) event list \<times> (error + unit)" where
  "main env py_int lit argv =
     (case get_arguments py_int lit argv of
        Inl e \<Rightarrow> ([], Inl e)
      | Inr a \<Rightarrow> (case train_wasr env lit a of (evs, r) \<Rightarrow> (PrintArgs a # evs, r)))"

subsection \<open>Well-formed options\<close>

text \<open>
  The constraints that the declarations of lines 39-80 put on a single option, written
  out from the table of the command line: a flag carries no argument, every other
  option carries one; an integer option carries a string that \<open>int\<close> converts;
  \<open>--model\<close>,
  \<open>--monitor-metric-mode\<close> and \<open>--precision\<close> carry one of their choices.
\<close>

definition valid_option :: "(string \<Rightarrow> int option) \<Rightarrow> string \<times> string option \<Rightarrow> bool" where
  "valid_option py_int kv =
     (case kv of
        (flag, None) \<Rightarrow> flag \<in> set [''--validation'', ''--imu'', ''--no-augmentation'']
      | (flag, Some s) \<Rightarrow>
          flag \<in> set [''--train-file'', ''--val-file'', ''--gpus'', ''--pretrained'',
                      ''--output-dir'', ''--model-name'', ''--pretrained-weights'',
                      ''--monitor-metric'', ''--resume-from'']
          \<or> (flag \<in> set [''--batch-size'', ''--num-classes'', ''--patience'', ''--log-steps'',
                          ''--workers'', ''--random-seed'']
              \<and> py_int s \<noteq> None)
          \<or> (flag = ''--model'' \<and> s \<in> set [''wasr_resnet101'', ''wasr_resnet50'', ''deeplab''])
          \<or> (flag = ''--monitor-metric-mode'' \<and> s \<in> set [''min'', ''max''])
          \<or> (flag = ''--precision'' \<and> py_int s \<in> set [Some 16, Some 32]))"

subsection \<open>A concrete world\<close>

text \<open>
  An instance of the parameters, for running the definitions: a wrapper that
  contributes the single option \<open>--epochs\<close>, models that are stores of named
  parameters, two manifests of ten samples and two weight files with the same
  parameter content, one bare and one wrapped.
\<close>

text \<open>
  A stand-in for Python's \<open>int\<close> in the concrete world: it reads a plain decimal numeral
  (an optional minus sign, then one to eighteen ASCII digits) and refuses every other
  string.
\<close>

definition is_digit :: "char \<Rightarrow> bool" where
  "is_digit c = (48 \<le> (of_char c :: nat) \<and> (of_char c :: nat) \<le> 57)"

definition digits_value :: "string \<Rightarrow> nat" where
  "digits_value ds = foldl (\<lambda>n c. 10 * n + (of_char c - 48)) 0 ds"

definition example_int :: "string \<Rightarrow> int option" where
  "example_int s =
     (let neg = (case s of [] \<Rightarrow> False | c # cs \<Rightarrow> c = CHR ''-'');
          ds = (if neg then tl s else s)
      in if ds \<noteq> [] \<and> length ds \<le> 18 \<and> list_all is_digit ds
         then Some (if neg then - int (digits_value ds) else int (digits_value ds))
         else None)"

definition example_lit :: "int lit_parser" where
  "example_lit =
     \<lparr> lit_defaults = 100,
       lit_actions =
         [(''--epochs'',
           \<lambda>v h. case v of
                    None \<Rightarrow> Inl (ExpectedOneArgument ''--epochs'')
                  | Some s \<Rightarrow>
                      (case example_int s of
                         None \<Rightarrow> Inl (InvalidValue ''--epochs'' ''int'' s)
                       | Some n \<Rightarrow> Inr n))],
       lit_required = [],
       lit_epochs = (\<lambda>h. h) \<rparr>"

type_synonym params = "(string \<times> nat list) list"

text \<open>
  A blob entry fits a parameter when it is a tensor of the same name and the same
  length.
\<close>

definition compatible :: "string \<times> pyobj \<Rightarrow> string \<times> nat list \<Rightarrow> bool" where
  "compatible kv p =
     (case snd kv of
        Tensor t \<Rightarrow> fst kv = fst p \<and> length t = length (snd p)
      | Dict d \<Rightarrow> False)"

definition tensor_bytes :: "pyobj \<Rightarrow> nat list" where
  "tensor_bytes v = (case v of Tensor t \<Rightarrow> t | Dict d \<Rightarrow> [])"

text \<open>
  Modelled from the spec: \<open>load_state_dict\<close> (torch, not part of train.py) on a store of
  named parameters. It fails with a \<open>WeightLoadError\<close> if the names or the shapes in the
  blob do not match the architecture; there is no partial load.
\<close>

definition load_state_dict_strict :: "params \<Rightarrow> pyobj \<Rightarrow> error + params" where
  "load_state_dict_strict m sd =
     (case sd of
        Tensor t \<Rightarrow> Inl WeightLoadError
      | Dict kvs \<Rightarrow>
          if list_all2 compatible kvs m then Inr (map (\<lambda>kv. (fst kv, tensor_bytes (snd kv))) kvs)
          else Inl WeightLoadError)"

definition example_params :: "(string \<times> pyobj) list" where
  "example_params = [(''backbone.weight'', Tensor [7, 7, 7]), (''decoder.bias'', Tensor [9])]"

definition example_env :: "(params, nat) env" where
  "example_env =
     \<lparr> fresh_seed = 1234,
       manifests = map_of [(''train.yaml'', [0, 1, 2, 3, 4, 5, 6, 7, 8, 9]),
                           (''val.yaml'', [10, 11, 12, 13, 14, 15, 16, 17, 18, 19])],
       wasr_deeplabv2_resnet101 =
         (\<lambda>n p i. [(''backbone.weight'', [nat n, of_bool p, of_bool i]), (''decoder.bias'', [0])]),
       wasr_deeplabv2_resnet50 =
         (\<lambda>n i. [(''backbone.weight'', [nat n, 50, of_bool i]), (''decoder.bias'', [0])]),
       deeplabv3_resnet101 =
         (\<lambda>n p. [(''backbone.weight'', [nat n, of_bool p, 3]), (''decoder.bias'', [0])]),
       torch_load = map_of [(''bare.pth'', example_params),
                            (''checkpoint.pth'', [(''model'', Dict example_params)])],
       load_state_dict = load_state_dict_strict \<rparr>"

definition example_args :: "int args" where
  "example_args =
     (defaults 100)\<lparr> train_file := Some ''train.yaml'', val_file := Some ''val.yaml'',
                     validation := True, model_name := Some ''run'' \<rparr>"

section \<open>Properties\<close>

lemmas constant_defs =
  DEVICE_BATCH_SIZE_def NUM_CLASSES_def PATIENCE_def LOG_STEPS_def NUM_WORKERS_def NUM_GPUS_def
  RANDOM_SEED_def OUTPUT_DIR_def PRETRAINED_DEEPLAB_def PRECISION_def MODEL_def MONITOR_VAR_def
  MONITOR_VAR_MODE_def

lemmas example_defs =
  example_args_def example_env_def example_lit_def example_params_def defaults_def constant_defs
  load_state_dict_strict_def compatible_def tensor_bytes_def

lemmas run_defs =
  train_wasr_def build_data_def MaSTr1325Dataset_def DataLoader_def augmentation_def Let_def
  build_model_def load_pretrained_def restore_weights_def build_callbacks_def build_trainer_def
  os_path_join_def seed_everything_def get_augmentation_transform_def

subsection \<open>The shape of a run\<close>

text \<open>
  A run ends in one of three ways: the data pipeline fails, the model cannot be built
  or restored, or \<open>trainer.fit\<close> is reached. In each case the events are known.
\<close>

lemma train_wasr_cases:
  fixes env :: "('m, 's) env" and lit :: "'h lit_parser" and a :: "'h args"
  defines "a' \<equiv> a\<lparr>random_seed := Some (seed_everything env (random_seed a))\<rparr>"
  obtains
    (data) e where "build_data env a' = Inl e"
      "train_wasr env lit a = ([SeedEverything (random_seed a)], Inl e)"
  | (weights) tdl vdl evs e where "build_data env a' = Inr (tdl, vdl)"
      "load_pretrained env a' (build_model env a') = (evs, Inl e)"
      "train_wasr env lit a = (SeedEverything (random_seed a) # evs, Inl e)"
  | (fit) tdl vdl evs mdl where "build_data env a' = Inr (tdl, vdl)"
      "load_pretrained env a' (build_model env a') = (evs, Inr mdl)"
      "train_wasr env lit a =
         (SeedEverything (random_seed a) # evs @
          [LogHyperparams (TensorBoardLogger (os_path_join (output_dir a) ''logs'') (model_name a)) a',
           Fit (build_trainer lit (TensorBoardLogger (os_path_join (output_dir a) ''logs'') (model_name a))
                  (build_callbacks a) a')
               \<lparr> lm_model = mdl, lm_num_classes = num_classes a, lm_args = a' \<rparr> tdl vdl],
          Inr ())"
proof (cases "build_data env a'")
  case (Inl e)
  then show ?thesis using data by (simp add: train_wasr_def a'_def)
next
  case (Inr p)
  obtain tdl vdl where p: "p = (tdl, vdl)" by (cases p)
  obtain evs r where l: "load_pretrained env a' (build_model env a') = (evs, r)"
    by (cases "load_pretrained env a' (build_model env a')")
  show ?thesis
  proof (cases r)
    case (Inl e)
    with Inr p l show ?thesis using weights by (simp add: train_wasr_def a'_def)
  next
    case r: (Inr mdl)
    have cb: "build_callbacks a' = build_callbacks a"
      by (simp add: build_callbacks_def a'_def split: option.splits)
    from r Inr p l cb show ?thesis
      using fit [of tdl vdl evs mdl] by (simp add: train_wasr_def a'_def Let_def)
  qed
qed

lemma load_pretrained_events:
  "fst (load_pretrained env a m) =
     (case pretrained_weights a of
        None \<Rightarrow> []
      | Some path \<Rightarrow> [Print (''Loading weights from: '' @ path), TorchLoad path])"
  by (simp add: load_pretrained_def split: option.splits)

lemma train_wasr_fit:
  assumes "Fit tr lm tdl vdl \<in> set (fst (train_wasr env lit a))"
  shows "\<exists>lg. tr = build_trainer lit lg (build_callbacks a)
                  (a\<lparr>random_seed := Some (seed_everything env (random_seed a))\<rparr>)"
proof (cases env lit a rule: train_wasr_cases)
  case (data e)
  with assms show ?thesis by simp
next
  case (weights tdl' vdl' evs e)
  with assms load_pretrained_events [of env "a\<lparr>random_seed := Some (seed_everything env (random_seed a))\<rparr>"
      "build_model env (a\<lparr>random_seed := Some (seed_everything env (random_seed a))\<rparr>)"]
  show ?thesis by (auto split: option.splits)
next
  case (fit tdl' vdl' evs mdl)
  with assms load_pretrained_events [of env "a\<lparr>random_seed := Some (seed_everything env (random_seed a))\<rparr>"
      "build_model env (a\<lparr>random_seed := Some (seed_everything env (random_seed a))\<rparr>)"]
  show ?thesis by (auto split: option.splits)
qed

lemma build_data_seed [simp]: "build_data env (a\<lparr>random_seed := s\<rparr>) = build_data env a"
  by (simp add: build_data_def augmentation_def Let_def split: sum.splits)

lemma build_model_seed [simp]: "build_model env (a\<lparr>random_seed := s\<rparr>) = build_model env a"
  by (simp add: build_model_def)

lemma load_pretrained_seed [simp]:
  "load_pretrained env (a\<lparr>random_seed := s\<rparr>) m = load_pretrained env a m"
  by (simp add: load_pretrained_def)

text \<open>A run without a weight file, on readable manifests and a known variant, reaches \<open>fit\<close>.\<close>

lemma train_wasr_reaches_fit:
  fixes env :: "('m, 's) env" and lit :: "'h lit_parser" and a :: "'h args"
  assumes "build_data env a = Inr (tdl, vdl)"
    and "pretrained_weights a = None"
    and "build_model env a = Some mdl"
  shows "\<exists>tr lm. train_wasr env lit a =
           ([SeedEverything (random_seed a),
             LogHyperparams (TensorBoardLogger (os_path_join (output_dir a) ''logs'') (model_name a))
               (a\<lparr>random_seed := Some (seed_everything env (random_seed a))\<rparr>),
             Fit tr lm tdl vdl], Inr ())"
  using assms by (simp add: train_wasr_def load_pretrained_def Let_def)

text \<open>The concrete world: the data pipeline succeeds, the variant is known, the run reaches \<open>fit\<close>.\<close>

lemma example_build_data:
  "\<exists>tdl vdl. build_data example_env (example_args\<lparr>patience := p, no_augmentation := n\<rparr>) = Inr (tdl, Some vdl)"
  by (simp add: example_defs build_data_def MaSTr1325Dataset_def DataLoader_def)

lemma example_build_model:
  "\<exists>mdl. build_model example_env (example_args\<lparr>patience := p, no_augmentation := n\<rparr>) = Some mdl"
  by (simp add: example_defs build_model_def)

lemma example_reaches_fit:
  "\<exists>tr lm tdl vdl.
     train_wasr example_env example_lit (example_args\<lparr>patience := p, no_augmentation := n\<rparr>)
       = ([SeedEverything None,
           LogHyperparams (TensorBoardLogger ''output/logs'' (Some ''run''))
             (example_args\<lparr>patience := p, no_augmentation := n, random_seed := Some 1234\<rparr>),
           Fit tr lm tdl vdl], Inr ())"
proof -
  let ?a = "example_args\<lparr>patience := p, no_augmentation := n\<rparr>"
  obtain tdl vdl where d: "build_data example_env ?a = Inr (tdl, Some vdl)"
    using example_build_data by blast
  obtain mdl where m: "build_model example_env ?a = Some mdl"
    using example_build_model by blast
  have w: "pretrained_weights ?a = None"
    by (simp add: example_args_def defaults_def)
  have "random_seed ?a = None" "output_dir ?a = ''output''" "model_name ?a = Some ''run''"
       "fresh_seed example_env = 1234"
    by (simp_all add: example_args_def defaults_def example_env_def constant_defs)
  with train_wasr_reaches_fit [OF d w m, of example_lit] show ?thesis
    by (auto simp: os_path_join_def seed_everything_def)
qed

lemma MaSTr1325Dataset_error:
  "MaSTr1325Dataset fs dataset_file t n i = Inl e \<Longrightarrow> \<exists>p. e = DataError p"
  by (auto simp: MaSTr1325Dataset_def split: option.splits)

lemma MaSTr1325Dataset_samples:
  "MaSTr1325Dataset fs dataset_file t n i = Inr ds \<Longrightarrow>
   \<exists>path. dataset_file = Some path \<and> fs path = Some (ds_samples ds)"
  by (auto simp: MaSTr1325Dataset_def split: option.splits)

lemma DataLoader_accepts:
  assumes "0 \<le> nw" and "0 < bs" and "shuffle \<longrightarrow> ds_samples ds \<noteq> []"
  shows "DataLoader ds bs shuffle nw drop_last =
           Inr \<lparr> dl_dataset = ds, dl_batch_size = bs, dl_shuffle = shuffle,
                 dl_num_workers = nw, dl_drop_last = drop_last \<rparr>"
  using assms by (auto simp: DataLoader_def)

lemma train_wasr_data_error:
  assumes "build_data env a = Inl e"
  shows "train_wasr env lit a = ([SeedEverything (random_seed a)], Inl e)"
  using assms by (simp add: train_wasr_def)

lemma MaSTr1325Dataset_fails:
  "dataset_file = None \<or> (\<exists>path. dataset_file = Some path \<and> fs path = None) \<Longrightarrow>
   \<exists>p. MaSTr1325Dataset fs dataset_file t n i = Inl (DataError p)"
  by (auto simp: MaSTr1325Dataset_def)

subsection \<open>Weight restoration\<close>

text \<open>
  Claim C1, as amended. The loader takes one of two paths on the loaded mapping
  \<open>state_dict\<close>: with the key \<open>model\<close>, the value under that key is loaded; without
  it, the mapping itself. Hence, for parameter content \<open>params\<close> that has no top-level
  key \<open>model\<close>, the wrapped blob and the bare blob lead to the same call of
  \<open>load_state_dict\<close> and so to the same restored model or the same error, whatever
  \<open>load_state_dict\<close> does; this holds for the dispatch of lines 120-124 and for the
  whole step of lines 117-126.
\<close>

theorem wrapped_and_bare_blob_agree:
  assumes "map_of params ''model'' = None"
  shows "(\<forall>inner. map_of state_dict ''model'' = Some inner \<longrightarrow>
            restore_weights lsd (Some m) state_dict = lsd m inner)
         \<and> (map_of state_dict ''model'' = None \<longrightarrow>
            restore_weights lsd (Some m) state_dict = lsd m (Dict state_dict))
         \<and> restore_weights lsd (Some m) [(''model'', Dict params)] = lsd m (Dict params)
         \<and> restore_weights lsd (Some m) params = lsd m (Dict params)
         \<and> restore_weights lsd mo [(''model'', Dict params)] = restore_weights lsd mo params
         \<and> (torch_load env wrapped_path = Some [(''model'', Dict params)] \<longrightarrow>
            torch_load env bare_path = Some params \<longrightarrow>
            snd (load_pretrained env (a\<lparr>pretrained_weights := Some wrapped_path\<rparr>) mo)
              = snd (load_pretrained env (a\<lparr>pretrained_weights := Some bare_path\<rparr>) mo))"
  using assms by (simp add: restore_weights_def load_pretrained_def)

text \<open>
  In the concrete world the two weight files restore the same parameters into the
  default model.
\<close>

theorem wrapped_and_bare_blob_agree_witness:
  "map_of example_params ''model'' = None
   \<and> snd (load_pretrained example_env (example_args\<lparr>pretrained_weights := Some ''checkpoint.pth''\<rparr>)
            (build_model example_env example_args))
       = Inr [(''backbone.weight'', [7, 7, 7]), (''decoder.bias'', [9])]
   \<and> snd (load_pretrained example_env (example_args\<lparr>pretrained_weights := Some ''bare.pth''\<rparr>)
            (build_model example_env example_args))
       = Inr [(''backbone.weight'', [7, 7, 7]), (''decoder.bias'', [9])]"
  using wrapped_and_bare_blob_agree [where params = example_params and env = example_env
          and mo = "build_model example_env example_args" and a = example_args
          and wrapped_path = "''checkpoint.pth''" and bare_path = "''bare.pth''"]
  by (simp add: example_defs build_model_def load_pretrained_def restore_weights_def)

text \<open>
  Claim C1 as stated fails for parameter content that has a parameter named \<open>model\<close>:
  the bare blob is then taken for a wrapper, and the tensor under the key is handed to
  \<open>load_state_dict\<close> in place of the mapping. With an architecture whose single
  parameter is called \<open>model\<close>, the wrapped blob restores it and the bare blob with the
  same content is refused.
\<close>

theorem bare_blob_with_model_key_counterexample:
  "restore_weights load_state_dict_strict (Some [(''model'', [0])])
       [(''model'', Dict [(''model'', Tensor [1])])]
     = Inr [(''model'', [1])]
   \<and> restore_weights load_state_dict_strict (Some [(''model'', [0])])
       [(''model'', Tensor [1])]
     = Inl WeightLoadError"
  by (simp add: restore_weights_def load_state_dict_strict_def compatible_def tensor_bytes_def)

subsection \<open>Model construction\<close>

text \<open>
  Claim C2. For the variant \<open>deeplab\<close> with \<open>--imu\<close> set, the dispatch of lines 110-115
  binds \<open>model\<close> (no branch is missed, so no error is raised) to the result of the
  deeplab constructor called with the class count and the pretrained flag only; it is
  the model built with \<open>--imu\<close> unset.
\<close>

theorem deeplab_ignores_imu:
  assumes "model a = ''deeplab''"
  shows "build_model env (a\<lparr>imu := True\<rparr>)
           = Some (deeplabv3_resnet101 env (num_classes a) (pretrained a))
         \<and> build_model env (a\<lparr>imu := True\<rparr>) = build_model env (a\<lparr>imu := False\<rparr>)"
  using assms by (simp add: build_model_def)

theorem deeplab_ignores_imu_witness:
  "model (example_args\<lparr>model := ''deeplab''\<rparr>) = ''deeplab''
   \<and> build_model example_env (example_args\<lparr>model := ''deeplab'', imu := True\<rparr>)
       = Some [(''backbone.weight'', [3, 1, 3]), (''decoder.bias'', [0])]
   \<and> build_model example_env (example_args\<lparr>model := ''deeplab'', imu := True\<rparr>)
       = build_model example_env (example_args\<lparr>model := ''deeplab'', imu := False\<rparr>)"
  using deeplab_ignores_imu [of "example_args\<lparr>model := ''deeplab''\<rparr>" example_env]
  by (simp add: example_defs build_model_def)

text \<open>
  Claim C10. For the variant \<open>wasr_resnet50\<close> the constructor is called with the class
  count and the auxiliary-input flag only: two configurations that differ in
  \<open>--pretrained\<close> alone build the same model.
\<close>

theorem resnet50_ignores_pretrained:
  assumes "model a = ''wasr_resnet50''"
  shows "build_model env (a\<lparr>pretrained := b\<rparr>)
           = Some (wasr_deeplabv2_resnet50 env (num_classes a) (imu a))
         \<and> build_model env (a\<lparr>pretrained := True\<rparr>) = build_model env (a\<lparr>pretrained := False\<rparr>)"
  using assms by (simp add: build_model_def)

theorem resnet50_ignores_pretrained_witness:
  "model (example_args\<lparr>model := ''wasr_resnet50''\<rparr>) = ''wasr_resnet50''
   \<and> build_model example_env (example_args\<lparr>model := ''wasr_resnet50'', pretrained := False\<rparr>)
       = Some [(''backbone.weight'', [3, 50, 0]), (''decoder.bias'', [0])]
   \<and> build_model example_env (example_args\<lparr>model := ''wasr_resnet50'', pretrained := True\<rparr>)
       = build_model example_env (example_args\<lparr>model := ''wasr_resnet50'', pretrained := False\<rparr>)"
  using resnet50_ignores_pretrained [of "example_args\<lparr>model := ''wasr_resnet50''\<rparr>" example_env False]
  by (simp add: example_defs build_model_def)

subsection \<open>Callbacks\<close>

text \<open>
  Claim C3. The callbacks of the trainer that is handed to \<open>fit\<close> are empty when
  validation is disabled. When it is enabled they hold the checkpointer, which keeps
  the last checkpoint and the single best one by the monitored metric and mode, and
  no other checkpointer; and they hold an early-stopping callback exactly when the
  patience is set, with that patience and the monitored metric and mode.
\<close>

theorem callbacks_policy:
  assumes "Fit tr lm tdl vdl \<in> set (fst (train_wasr env lit a))"
  shows "tr_callbacks tr = build_callbacks a
   \<and> (\<not> validation a \<longrightarrow> tr_callbacks tr = [])
   \<and> (validation a \<longrightarrow>
        ModelCheckpoint True 1 (monitor_metric a) (monitor_metric_mode a) \<in> set (tr_callbacks tr)
        \<and> (\<forall>sl k mo md. ModelCheckpoint sl k mo md \<in> set (tr_callbacks tr) \<longrightarrow>
              sl \<and> k = 1 \<and> mo = monitor_metric a \<and> md = monitor_metric_mode a)
        \<and> (\<forall>mo p md. EarlyStopping mo p md \<in> set (tr_callbacks tr) \<longleftrightarrow>
              patience a = Some p \<and> mo = monitor_metric a \<and> md = monitor_metric_mode a))"
proof -
  from train_wasr_fit [OF assms] have cb: "tr_callbacks tr = build_callbacks a"
    by (auto simp: build_trainer_def)
  show ?thesis
    unfolding cb by (auto simp: build_callbacks_def split: option.splits)
qed

theorem callbacks_policy_witness:
  "(\<exists>tr lm tdl vdl.
      Fit tr lm tdl vdl
        \<in> set (fst (train_wasr example_env example_lit
                      (example_args\<lparr>patience := Some 5, no_augmentation := False\<rparr>)))
      \<and> validation (example_args\<lparr>patience := Some 5, no_augmentation := False\<rparr>)
      \<and> tr_callbacks tr = [EarlyStopping ''val/iou/obstacle'' 5 ''max'',
                            ModelCheckpoint True 1 ''val/iou/obstacle'' ''max''])
   \<and> (\<exists>tr lm tdl vdl.
      Fit tr lm tdl vdl
        \<in> set (fst (train_wasr example_env example_lit
                      (example_args\<lparr>patience := None, no_augmentation := False\<rparr>)))
      \<and> tr_callbacks tr = [ModelCheckpoint True 1 ''val/iou/obstacle'' ''max''])"
proof -
  let ?a = "example_args\<lparr>patience := Some 5, no_augmentation := False\<rparr>"
  let ?b = "example_args\<lparr>patience := None, no_augmentation := False\<rparr>"
  obtain tr lm tdl vdl where
    f: "Fit tr lm tdl vdl \<in> set (fst (train_wasr example_env example_lit ?a))"
    using example_reaches_fit [where p = "Some 5" and n = False] by auto
  obtain tr' lm' tdl' vdl' where
    f': "Fit tr' lm' tdl' vdl' \<in> set (fst (train_wasr example_env example_lit ?b))"
    using example_reaches_fit [where p = None and n = False] by auto
  have "tr_callbacks tr = [EarlyStopping ''val/iou/obstacle'' 5 ''max'',
                           ModelCheckpoint True 1 ''val/iou/obstacle'' ''max'']"
    using callbacks_policy [OF f, THEN conjunct1] by (simp add: example_defs build_callbacks_def)
  moreover have "tr_callbacks tr' = [ModelCheckpoint True 1 ''val/iou/obstacle'' ''max'']"
    using callbacks_policy [OF f', THEN conjunct1] by (simp add: example_defs build_callbacks_def)
  moreover have "validation ?a"
    by (simp add: example_defs)
  ultimately show ?thesis using f f' by blast
qed

subsection \<open>The data pipeline\<close>

text \<open>
  Claim C8. The augmentation transform is constructed exactly when \<open>--no-augmentation\<close>
  is absent; the training dataset carries it in that case and no transform otherwise;
  the validation dataset never carries a transform.
\<close>

theorem augmentation_only_on_training:
  assumes "build_data env a = Inr (train_dl, val_dl)"
  shows "(augmentation a = None \<longleftrightarrow> no_augmentation a)
         \<and> ds_transform (dl_dataset train_dl)
             = (if no_augmentation a then None else Some get_augmentation_transform)
         \<and> (\<forall>v. val_dl = Some v \<longrightarrow> ds_transform (dl_dataset v) = None)"
  using assms
  by (auto simp: build_data_def MaSTr1325Dataset_def DataLoader_def augmentation_def Let_def
           split: option.splits if_splits sum.splits)

theorem augmentation_only_on_training_witness:
  "(\<exists>t v. build_data example_env (example_args\<lparr>patience := None, no_augmentation := False\<rparr>) = Inr (t, Some v)
      \<and> ds_transform (dl_dataset t) = Some get_augmentation_transform
      \<and> ds_transform (dl_dataset v) = None)
   \<and> (\<exists>t v. build_data example_env (example_args\<lparr>patience := None, no_augmentation := True\<rparr>) = Inr (t, Some v)
      \<and> ds_transform (dl_dataset t) = None
      \<and> ds_transform (dl_dataset v) = None)"
proof -
  obtain t v where
    b: "build_data example_env (example_args\<lparr>patience := None, no_augmentation := False\<rparr>) = Inr (t, Some v)"
    using example_build_data by blast
  obtain t' v' where
    b': "build_data example_env (example_args\<lparr>patience := None, no_augmentation := True\<rparr>) = Inr (t', Some v')"
    using example_build_data by blast
  show ?thesis
    using augmentation_only_on_training [OF b] augmentation_only_on_training [OF b'] b b'
    by simp
qed

text \<open>
  Claim C6, as amended. The data pipeline fails with a \<open>DataError\<close>, and so does the
  run, before anything but the seeding has happened, when the training manifest path
  is missing or unreadable; and also when validation is requested and the validation
  manifest path is missing or unreadable, provided the training loader can be
  constructed: the batch size is positive, the number of workers is not negative and
  the training manifest lists at least one sample.
\<close>

theorem missing_manifest_is_data_error:
  assumes "train_file a = None \<or> (\<exists>path. train_file a = Some path \<and> manifests env path = None)
           \<or> (validation a
               \<and> (val_file a = None \<or> (\<exists>path. val_file a = Some path \<and> manifests env path = None))
               \<and> 0 < batch_size a \<and> 0 \<le> workers a
               \<and> (\<forall>path. train_file a = Some path \<longrightarrow> manifests env path \<noteq> Some []))"
  shows "\<exists>p. build_data env a = Inl (DataError p)
             \<and> train_wasr env lit a = ([SeedEverything (random_seed a)], Inl (DataError p))"
proof -
  have "\<exists>p. build_data env a = Inl (DataError p)"
  proof (cases "MaSTr1325Dataset (manifests env) (train_file a) (augmentation a)
                  (Some PytorchHubNormalization) False")
    case (Inl e)
    with MaSTr1325Dataset_error [OF Inl] show ?thesis
      by (auto simp: build_data_def)
  next
    case (Inr train_ds)
    from MaSTr1325Dataset_samples [OF Inr] obtain path where
      tf: "train_file a = Some path" "manifests env path = Some (ds_samples train_ds)"
      by blast
    with assms have v: "validation a"
      and vf: "val_file a = None \<or> (\<exists>path. val_file a = Some path \<and> manifests env path = None)"
      and ok: "0 < batch_size a" "0 \<le> workers a" "ds_samples train_ds \<noteq> []"
      by auto
    from ok have dl: "DataLoader train_ds (batch_size a) True (workers a) True =
        Inr \<lparr> dl_dataset = train_ds, dl_batch_size = batch_size a, dl_shuffle = True,
              dl_num_workers = workers a, dl_drop_last = True \<rparr>"
      by (intro DataLoader_accepts) simp_all
    from MaSTr1325Dataset_fails [OF vf] obtain p where
      "MaSTr1325Dataset (manifests env) (val_file a) None (Some PytorchHubNormalization) True
         = Inl (DataError p)"
      by blast
    with Inr dl v show ?thesis by (simp add: build_data_def)
  qed
  then obtain p where p: "build_data env a = Inl (DataError p)" ..
  with train_wasr_data_error [OF p] show ?thesis by simp
qed

theorem missing_manifest_is_data_error_witness:
  "validation (example_args\<lparr>val_file := None\<rparr>) \<and> val_file (example_args\<lparr>val_file := None\<rparr>) = None
   \<and> 0 < batch_size (example_args\<lparr>val_file := None\<rparr>)
   \<and> 0 \<le> workers (example_args\<lparr>val_file := None\<rparr>)
   \<and> train_file (example_args\<lparr>val_file := None\<rparr>) = Some ''train.yaml''
   \<and> manifests example_env ''train.yaml'' \<noteq> Some []
   \<and> build_data example_env (example_args\<lparr>val_file := None\<rparr>) = Inl (DataError None)
   \<and> train_wasr example_env example_lit (example_args\<lparr>val_file := None\<rparr>)
       = ([SeedEverything None], Inl (DataError None))"
proof -
  let ?a = "example_args\<lparr>val_file := None\<rparr>"
  have h: "validation ?a" "val_file ?a = None" "random_seed ?a = None"
    "0 < batch_size ?a" "0 \<le> workers ?a" "train_file ?a = Some ''train.yaml''"
    "manifests example_env ''train.yaml'' \<noteq> Some []"
    by (simp_all add: example_defs)
  have b: "build_data example_env ?a = Inl (DataError None)"
    by (simp add: example_defs build_data_def MaSTr1325Dataset_def DataLoader_def)
  from h have "\<exists>p. build_data example_env ?a = Inl (DataError p)
             \<and> train_wasr example_env example_lit ?a = ([SeedEverything (random_seed ?a)], Inl (DataError p))"
    by (intro missing_manifest_is_data_error) simp
  with h b show ?thesis
    by simp
qed

text \<open>
  Claim C6 as stated fails when the training loader cannot be constructed: with
  validation requested, no validation manifest path and a batch size of 0 (or a
  negative number of workers), the constructor of the training loader (line 102)
  raises a \<open>ValueError\<close> before the validation dataset (line 107) is looked at.
\<close>

theorem zero_batch_size_counterexample:
  "validation (example_args\<lparr>val_file := None, batch_size := 0\<rparr>)
   \<and> val_file (example_args\<lparr>val_file := None, batch_size := 0\<rparr>) = None
   \<and> build_data example_env (example_args\<lparr>val_file := None, batch_size := 0\<rparr>)
       = Inl (ValueError ''batch_size'')
   \<and> train_wasr example_env example_lit (example_args\<lparr>val_file := None, batch_size := 0\<rparr>)
       = ([SeedEverything None], Inl (ValueError ''batch_size''))
   \<and> build_data example_env (example_args\<lparr>val_file := None, workers := - 1\<rparr>)
       = Inl (ValueError ''num_workers'')"
  by (simp add: example_defs train_wasr_def build_data_def MaSTr1325Dataset_def DataLoader_def
        seed_everything_def)

subsection \<open>Loaders\<close>

lemma length_ten:
  assumes "length xs = 10"
  obtains x0 x1 x2 x3 x4 x5 x6 x7 x8 x9 where "xs = [x0, x1, x2, x3, x4, x5, x6, x7, x8, x9]"
  using assms by (auto simp: numeral_eq_Suc length_Suc_conv)

lemma upt_ten: "[0 ..< 10] = [0, 1, 2, 3, 4, 5, 6, 7, 8, 9::nat]"
  by (simp add: upt_rec)

text \<open>Without drop-last the batches are a partition of the sampler's order.\<close>

lemma concat_batch_sampler_keep:
  "concat (batch_sampler n False batch xs) = batch @ xs"
  by (induction xs arbitrary: batch) auto

lemma build_data_loaders:
  assumes "build_data env a = Inr (train_dl, val_dl)"
  shows "\<exists>train_ds.
           train_dl = \<lparr> dl_dataset = train_ds, dl_batch_size = batch_size a, dl_shuffle = True,
                        dl_num_workers = workers a, dl_drop_last = True \<rparr>
           \<and> (\<forall>v. val_dl = Some v \<longrightarrow>
                (\<exists>val_ds. v = \<lparr> dl_dataset = val_ds, dl_batch_size = batch_size a,
                                 dl_shuffle = False, dl_num_workers = workers a,
                                 dl_drop_last = False \<rparr>))"
  using assms
  by (auto simp: build_data_def DataLoader_def Let_def split: sum.splits if_splits)

text \<open>
  Claim C4. The training loader is built shuffled and with drop-last, the validation
  loader unshuffled and without. So with batch size 3 and a dataset of 10 samples the
  training loader yields exactly 3 batches, each of 3 samples, drawn from the first 9
  positions of the shuffled order (the remaining one is discarded); the validation
  loader yields exactly 4 batches, the last one of a single sample, and the batches
  put together are the dataset, every sample once and in order.
\<close>

theorem loader_batches:
  assumes "build_data env a = Inr (train_dl, val_dl)"
  shows "dl_shuffle train_dl \<and> dl_drop_last train_dl
         \<and> (\<forall>v. val_dl = Some v \<longrightarrow> \<not> dl_shuffle v \<and> \<not> dl_drop_last v)
         \<and> (batch_size a = 3 \<and> length (ds_samples (dl_dataset train_dl)) = 10
              \<and> distinct perm \<and> set perm = {0 ..< length (ds_samples (dl_dataset train_dl))} \<longrightarrow>
            length (batches train_dl perm) = 3
            \<and> (\<forall>b \<in> set (batches train_dl perm). length b = 3)
            \<and> concat (batches train_dl perm)
                = map (\<lambda>i. ds_samples (dl_dataset train_dl) ! i) (take 9 perm))
         \<and> (\<forall>v. val_dl = Some v \<and> batch_size a = 3 \<and> length (ds_samples (dl_dataset v)) = 10 \<longrightarrow>
              length (batches v perm') = 4
              \<and> length (last (batches v perm')) = 1
              \<and> concat (batches v perm') = ds_samples (dl_dataset v))"
proof -
  from build_data_loaders [OF assms] obtain train_ds where
    t: "train_dl = \<lparr> dl_dataset = train_ds, dl_batch_size = batch_size a, dl_shuffle = True,
                       dl_num_workers = workers a, dl_drop_last = True \<rparr>"
    and v: "\<And>v. val_dl = Some v \<Longrightarrow>
              \<exists>val_ds. v = \<lparr> dl_dataset = val_ds, dl_batch_size = batch_size a,
                               dl_shuffle = False, dl_num_workers = workers a,
                               dl_drop_last = False \<rparr>"
    by blast
  have flags: "dl_shuffle train_dl \<and> dl_drop_last train_dl
         \<and> (\<forall>v. val_dl = Some v \<longrightarrow> \<not> dl_shuffle v \<and> \<not> dl_drop_last v)"
    using t v by (auto simp: DataLoader_def)
  have train: "length (batches train_dl perm) = 3
            \<and> (\<forall>b \<in> set (batches train_dl perm). length b = 3)
            \<and> concat (batches train_dl perm)
                = map (\<lambda>i. ds_samples (dl_dataset train_dl) ! i) (take 9 perm)"
    if "batch_size a = 3" and n: "length (ds_samples (dl_dataset train_dl)) = 10"
      and "distinct perm" and "set perm = {0 ..< length (ds_samples (dl_dataset train_dl))}"
  proof -
    from that have "length perm = 10"
      using distinct_card [of perm] by simp
    then obtain x0 x1 x2 x3 x4 x5 x6 x7 x8 x9 where "perm = [x0, x1, x2, x3, x4, x5, x6, x7, x8, x9]"
      by (rule length_ten)
    with t \<open>batch_size a = 3\<close> show ?thesis
      by (simp add: batches_def sampler_def DataLoader_def)
  qed
  have val: "length (batches v perm') = 4
              \<and> length (last (batches v perm')) = 1
              \<and> concat (batches v perm') = ds_samples (dl_dataset v)"
    if "val_dl = Some v" and "batch_size a = 3" and "length (ds_samples (dl_dataset v)) = 10" for v
  proof -
    from v [OF that(1)] that(2) obtain val_ds where
      vd: "v = \<lparr> dl_dataset = val_ds, dl_batch_size = 3, dl_shuffle = False,
                 dl_num_workers = workers a, dl_drop_last = False \<rparr>"
      by auto
    with that(3) have "length (ds_samples val_ds) = 10" by (simp add: DataLoader_def)
    then obtain x0 x1 x2 x3 x4 x5 x6 x7 x8 x9 where
      "ds_samples val_ds = [x0, x1, x2, x3, x4, x5, x6, x7, x8, x9]"
      by (rule length_ten)
    with vd show ?thesis
      by (simp add: batches_def sampler_def DataLoader_def upt_ten)
  qed
  from flags train val show ?thesis by blast
qed

theorem loader_batches_witness:
  "\<exists>t v. build_data example_env (example_args\<lparr>patience := None, no_augmentation := False\<rparr>) = Inr (t, Some v)
     \<and> batch_size (example_args\<lparr>patience := None, no_augmentation := False\<rparr>) = 3
     \<and> length (ds_samples (dl_dataset t)) = 10
     \<and> length (ds_samples (dl_dataset v)) = 10
     \<and> distinct [9, 8, 7, 6, 5, 4, 3, 2, 1, 0::nat]
     \<and> set [9, 8, 7, 6, 5, 4, 3, 2, 1, 0::nat] = {0 ..< length (ds_samples (dl_dataset t))}
     \<and> batches t [9, 8, 7, 6, 5, 4, 3, 2, 1, 0] = [[9, 8, 7], [6, 5, 4], [3, 2, 1]]
     \<and> length (batches t [9, 8, 7, 6, 5, 4, 3, 2, 1, 0]) = 3
     \<and> batches v [] = [[10, 11, 12], [13, 14, 15], [16, 17, 18], [19]]
     \<and> length (batches v []) = 4
     \<and> concat (batches v []) = ds_samples (dl_dataset v)"
proof -
  let ?a = "example_args\<lparr>patience := None, no_augmentation := False\<rparr>"
  let ?t = "\<lparr> dl_dataset = \<lparr> ds_samples = [0, 1, 2, 3, 4, 5, 6, 7, 8, 9::nat],
                       ds_transform = Some AugmentationTransform,
                       ds_normalize_t = Some PytorchHubNormalization,
                       ds_include_original = False \<rparr>,
              dl_batch_size = 3, dl_shuffle = True, dl_num_workers = 1, dl_drop_last = True \<rparr>"
  let ?v = "\<lparr> dl_dataset = \<lparr> ds_samples = [10, 11, 12, 13, 14, 15, 16, 17, 18, 19::nat],
                       ds_transform = None,
                       ds_normalize_t = Some PytorchHubNormalization,
                       ds_include_original = True \<rparr>,
              dl_batch_size = 3, dl_shuffle = False, dl_num_workers = 1, dl_drop_last = False \<rparr>"
  let ?perm = "[9, 8, 7, 6, 5, 4, 3, 2, 1, 0::nat]"
  have b: "build_data example_env ?a = Inr (?t, Some ?v)"
    by (simp add: example_defs build_data_def MaSTr1325Dataset_def DataLoader_def augmentation_def
          get_augmentation_transform_def)
  have h: "batch_size ?a = 3" "length (ds_samples (dl_dataset ?t)) = 10"
    "length (ds_samples (dl_dataset ?v)) = 10" "distinct ?perm"
    by (simp_all add: example_defs DataLoader_def)
  have p: "set ?perm = {0 ..< length (ds_samples (dl_dataset ?t))}"
    by (auto simp: DataLoader_def atLeastLessThan_upt upt_ten)
  have bt: "batches ?t ?perm = [[9, 8, 7], [6, 5, 4], [3, 2, 1]]"
    by (simp add: batches_def sampler_def DataLoader_def)
  have bv: "batches ?v [] = [[10, 11, 12], [13, 14, 15], [16, 17, 18], [19]]"
    by (simp add: batches_def sampler_def DataLoader_def upt_ten)
  from loader_batches [OF b, of ?perm "[]"] h p
  have "length (batches ?t ?perm) = 3" "length (batches ?v []) = 4"
    "concat (batches ?v []) = ds_samples (dl_dataset ?v)"
    by blast+
  with b h p bt bv show ?thesis by blast
qed

subsection \<open>The seed\<close>

text \<open>
  Claim C5. A run seeds exactly once, as its first effect, with the seed option as
  supplied. The namespace \<open>a'\<close> that is logged, and that the wrapper receives, is the
  input with the resolved seed written back. Whenever \<open>fit\<close> is called, the call is
  the last event and the one before it is the logging of \<open>a'\<close> to the trainer's
  logger; a run that ends without error has called \<open>fit\<close>. The resolved seed is the
  generated one if none was supplied, and the supplied one otherwise.
\<close>

theorem seed_resolved_once_and_logged:
  fixes env :: "('m, 's) env" and lit :: "'h lit_parser" and a :: "'h args"
  defines "a' \<equiv> a\<lparr>random_seed := Some (seed_everything env (random_seed a))\<rparr>"
    and "evs \<equiv> fst (train_wasr env lit a)"
  shows "(\<exists>rest. evs = SeedEverything (random_seed a) # rest \<and> (\<forall>s. SeedEverything s \<notin> set rest))
         \<and> (\<forall>lg b. LogHyperparams lg b \<in> set evs \<longrightarrow> b = a')
         \<and> (\<forall>tr lm tdl vdl. Fit tr lm tdl vdl \<in> set evs \<longrightarrow>
              (\<exists>pre. evs = pre @ [LogHyperparams (tr_logger tr) a', Fit tr lm tdl vdl])
              \<and> lm_args lm = a')
         \<and> (snd (train_wasr env lit a) = Inr () \<longrightarrow> (\<exists>tr lm tdl vdl. Fit tr lm tdl vdl \<in> set evs))
         \<and> (random_seed a = None \<longrightarrow> random_seed a' = Some (fresh_seed env))
         \<and> (\<forall>s. random_seed a = Some s \<longrightarrow> random_seed a' = Some s)"
proof -
  have seed: "(random_seed a = None \<longrightarrow> random_seed a' = Some (fresh_seed env))
         \<and> (\<forall>s. random_seed a = Some s \<longrightarrow> random_seed a' = Some s)"
    by (simp add: a'_def seed_everything_def)
  have le: "\<exists>path. evs' = [] \<or> evs' = [Print (''Loading weights from: '' @ path), TorchLoad path]"
    if "load_pretrained env a' (build_model env a') = (evs', r)" for evs' r
    using load_pretrained_events [of env a' "build_model env a'"] that
    by (auto split: option.splits)
  show ?thesis
  proof (cases env lit a rule: train_wasr_cases)
    case (data e)
    with seed show ?thesis by (simp add: evs_def)
  next
    case (weights tdl vdl evs' e)
    from le [unfolded a'_def, OF weights(2)] weights(3) seed show ?thesis
      by (auto simp: evs_def)
  next
    case (fit tdl vdl evs' mdl)
    from le [unfolded a'_def, OF fit(2)] fit(3) [folded a'_def] seed show ?thesis
      by (auto simp: evs_def build_trainer_def)
  qed
qed

theorem seed_resolved_once_and_logged_witness:
  "(\<exists>tr lm tdl vdl.
      fst (train_wasr example_env example_lit (example_args\<lparr>patience := None, no_augmentation := False\<rparr>))
        = [SeedEverything None,
           LogHyperparams (tr_logger tr)
             (example_args\<lparr>patience := None, no_augmentation := False, random_seed := Some 1234\<rparr>),
           Fit tr lm tdl vdl]
      \<and> lm_args lm = example_args\<lparr>patience := None, no_augmentation := False, random_seed := Some 1234\<rparr>)"
proof -
  let ?a = "example_args\<lparr>patience := None, no_augmentation := False\<rparr>"
  from example_reaches_fit [where p = None and n = False] obtain tr lm tdl vdl where
    run: "train_wasr example_env example_lit ?a
            = ([SeedEverything None,
                LogHyperparams (TensorBoardLogger ''output/logs'' (Some ''run''))
                  (?a\<lparr>random_seed := Some 1234\<rparr>),
                Fit tr lm tdl vdl], Inr ())"
    by blast
  then have f: "Fit tr lm tdl vdl \<in> set (fst (train_wasr example_env example_lit ?a))"
    by simp
  have s: "?a\<lparr>random_seed := Some (seed_everything example_env (random_seed ?a))\<rparr>
             = ?a\<lparr>random_seed := Some 1234\<rparr>"
    by (simp add: example_defs seed_everything_def)
  from seed_resolved_once_and_logged [of example_env example_lit ?a, unfolded s] f
  have "(\<exists>pre. fst (train_wasr example_env example_lit ?a)
                 = pre @ [LogHyperparams (tr_logger tr) (?a\<lparr>random_seed := Some 1234\<rparr>), Fit tr lm tdl vdl])
        \<and> lm_args lm = ?a\<lparr>random_seed := Some 1234\<rparr>"
    by blast
  with run show ?thesis by auto
qed


subsection \<open>The command line\<close>

lemmas action_defs = store_def store_true_def help_action_def lit_action_def py_str_def py_bool_def

lemma parser_lookup:
  "map_of (add_argparse_args lit (parser py_int)) flag =
     (case map_of (parser py_int) flag of
        Some act \<Rightarrow> Some act
      | None \<Rightarrow> map_option lit_action (map_of (lit_actions lit) flag))"
proof -
  have "map_of (map (\<lambda>(flag, act). (flag, lit_action act)) xs) flag = map_option lit_action (map_of xs flag)"
    for xs :: "(string \<times> (string option \<Rightarrow> 'a \<Rightarrow> config_error + 'a)) list"
    by (induction xs) auto
  then show ?thesis
    by (simp add: add_argparse_args_def map_add_def split: option.splits)
qed

lemma consume_append:
  "consume p (xs @ ys) a seen extras =
     (case consume p xs a seen extras of
        Inl e \<Rightarrow> Inl e
      | Inr (a', seen', extras') \<Rightarrow> consume p ys a' seen' extras')"
  by (induction xs arbitrary: a seen extras) (auto split: option.splits sum.splits)

lemma store_keeps_pretrained:
  "store ty conv ch dest flag v a = Inr a' \<Longrightarrow> (\<And>x. pretrained (dest x a) = pretrained a) \<Longrightarrow>
   pretrained a' = pretrained a"
  by (auto simp: store_def split: option.splits if_splits)

lemma store_true_keeps_pretrained:
  "store_true dest flag v a = Inr a' \<Longrightarrow> pretrained (dest a) = pretrained a \<Longrightarrow>
   pretrained a' = pretrained a"
  by (auto simp: store_true_def split: option.splits)

lemma help_action_ends: "help_action flag v a \<noteq> Inr a'"
  by (simp add: help_action_def split: option.splits)

lemma parser_keeps_pretrained:
  "\<forall>(flag, act) \<in> set ((parser py_int) :: (string \<times> 'h action) list).
     flag \<noteq> ''--pretrained'' \<longrightarrow> (\<forall>v a a'. act v a = Inr a' \<longrightarrow> pretrained a' = pretrained a)"
  by (simp add: parser_def add_argument_def help_action_ends)
     (intro conjI allI impI; (erule store_keeps_pretrained | erule store_true_keeps_pretrained); simp)

lemma action_keeps_pretrained:
  fixes lit :: "'h lit_parser"
  assumes "map_of (add_argparse_args lit (parser py_int)) flag = Some act"
    and "flag \<noteq> ''--pretrained''" and "act v a = Inr a'"
  shows "pretrained a' = pretrained a"
proof (cases "map_of ((parser py_int) :: (string \<times> 'h action) list) flag")
  case None
  with assms(1) obtain la where "act = lit_action la"
    by (auto simp: parser_lookup)
  with assms(3) show ?thesis
    by (auto simp: lit_action_def split: sum.splits)
next
  case (Some own)
  with assms(1) have "(flag, act) \<in> set ((parser py_int) :: (string \<times> 'h action) list)"
    by (auto simp: parser_lookup dest: map_of_SomeD)
  with parser_keeps_pretrained assms(2,3) show ?thesis
    by blast
qed

lemma consume_keeps_pretrained:
  assumes "consume (add_argparse_args lit (parser py_int)) xs a seen extras = Inr (a', seen', extras')"
    and "''--pretrained'' \<notin> fst ` set xs"
  shows "pretrained a' = pretrained a"
  using assms
proof (induction xs arbitrary: a seen extras)
  case Nil
  then show ?case by simp
next
  case (Cons kv xs)
  obtain flag v where kv: "kv = (flag, v)" by (cases kv)
  show ?case
  proof (cases "map_of (add_argparse_args lit (parser py_int)) flag")
    case None
    with Cons kv show ?thesis by auto
  next
    case (Some act)
    with Cons.prems kv obtain a1 where a1: "act v a = Inr a1"
      and rest: "consume (add_argparse_args lit (parser py_int)) xs a1 (flag # seen) extras = Inr (a', seen', extras')"
      by (auto split: sum.splits)
    from Cons.prems kv have "flag \<noteq> ''--pretrained''" by auto
    with action_keeps_pretrained [OF Some _ a1] have "pretrained a1 = pretrained a" by simp
    moreover from Cons.IH [OF rest] Cons.prems have "pretrained a' = pretrained a1" by simp
    ultimately show ?thesis by simp
  qed
qed

lemma consume_pretrained:
  "consume (add_argparse_args lit (parser py_int)) ((''--pretrained'', Some s) # rest) a seen extras
     = consume (add_argparse_args lit (parser py_int)) rest (a\<lparr>pretrained := s \<noteq> []\<rparr>)
         (''--pretrained'' # seen) extras"
proof -
  have "map_of (parser py_int) ''--pretrained''
          = Some (store ''bool'' py_bool None (\<lambda>v (a :: 'a args). a\<lparr>pretrained := v\<rparr>) ''--pretrained'')"
    by (simp add: parser_def add_argument_def)
  then show ?thesis
    by (simp add: parser_lookup action_defs)
qed

lemma get_arguments_consume:
  assumes "get_arguments py_int lit xs = Inr a"
  shows "\<exists>seen. consume (add_argparse_args lit (parser py_int)) xs (defaults (lit_defaults lit)) [] [] = Inr (a, seen, [])
           \<and> set (required_options @ lit_required lit) \<subseteq> set seen"
  using assms
  by (auto simp: get_arguments_def parse_args_def Let_def filter_empty_conv split: sum.splits if_splits)

text \<open>
  Claim C9. \<open>--pretrained\<close> is declared with \<open>type=bool\<close>, so its argument is
  converted by truthiness: the action never fails on an argument and stores true for
  every non-empty string, false for the empty string only. In a successful parse the
  last \<open>--pretrained\<close> decides, and without the option the default \<open>True\<close> stands.
\<close>

theorem pretrained_is_truthiness:
  "(get_arguments py_int lit (xs @ (''--pretrained'', Some s) # ys) = Inr a \<and> ''--pretrained'' \<notin> fst ` set ys
      \<longrightarrow> pretrained a = (s \<noteq> []))
   \<and> (get_arguments py_int lit xs = Inr a \<and> ''--pretrained'' \<notin> fst ` set xs \<longrightarrow> pretrained a = True)
   \<and> consume (add_argparse_args lit (parser py_int)) ((''--pretrained'', Some s) # ys) a0 seen extras
       = consume (add_argparse_args lit (parser py_int)) ys (a0\<lparr>pretrained := s \<noteq> []\<rparr>)
           (''--pretrained'' # seen) extras"
proof (intro conjI impI)
  let ?p = "add_argparse_args lit (parser py_int)"
  assume "get_arguments py_int lit (xs @ (''--pretrained'', Some s) # ys) = Inr a \<and> ''--pretrained'' \<notin> fst ` set ys"
  then have g: "get_arguments py_int lit (xs @ (''--pretrained'', Some s) # ys) = Inr a"
    and ys: "''--pretrained'' \<notin> fst ` set ys" by simp_all
  from get_arguments_consume [OF g] obtain sn where
    c: "consume ?p (xs @ (''--pretrained'', Some s) # ys) (defaults (lit_defaults lit)) [] [] = Inr (a, sn, [])"
    by blast
  then obtain a1 s1 e1 where "consume ?p ys (a1\<lparr>pretrained := s \<noteq> []\<rparr>) (''--pretrained'' # s1) e1 = Inr (a, sn, [])"
    by (auto simp: consume_append consume_pretrained split: sum.splits simp del: consume.simps)
  from consume_keeps_pretrained [OF this ys] show "pretrained a = (s \<noteq> [])" by simp
next
  assume "get_arguments py_int lit xs = Inr a \<and> ''--pretrained'' \<notin> fst ` set xs"
  then have g: "get_arguments py_int lit xs = Inr a" and xs: "''--pretrained'' \<notin> fst ` set xs" by simp_all
  from get_arguments_consume [OF g] obtain sn where
    "consume (add_argparse_args lit (parser py_int)) xs (defaults (lit_defaults lit)) [] [] = Inr (a, sn, [])"
    by blast
  from consume_keeps_pretrained [OF this xs] show "pretrained a = True"
    by (simp add: defaults_def PRETRAINED_DEEPLAB_def)
next
  show "consume (add_argparse_args lit (parser py_int)) ((''--pretrained'', Some s) # ys) a0 seen extras
       = consume (add_argparse_args lit (parser py_int)) ys (a0\<lparr>pretrained := s \<noteq> []\<rparr>)
           (''--pretrained'' # seen) extras"
    by (rule consume_pretrained)
qed


lemma store_error:
  "store ty conv ch dest flag v a = Inl e \<Longrightarrow> \<exists>c. e = ConfigError c"
  by (auto simp: store_def split: option.splits if_splits)

lemma store_true_error:
  "store_true dest flag v a = Inl e \<Longrightarrow> \<exists>c. e = ConfigError c"
  by (auto simp: store_true_def split: option.splits)

lemma parser_errors:
  "\<forall>(flag, act) \<in> set ((parser py_int) :: (string \<times> 'h action) list).
     flag \<noteq> ''-h'' \<and> flag \<noteq> ''--help'' \<longrightarrow> (\<forall>v a e. act v a = Inl e \<longrightarrow> (\<exists>c. e = ConfigError c))"
  by (simp add: parser_def add_argument_def)
     (intro conjI allI impI; (erule store_error | erule store_true_error))

lemma action_errors:
  fixes lit :: "'h lit_parser"
  assumes "map_of (add_argparse_args lit (parser py_int)) flag = Some act"
    and "flag \<noteq> ''-h''" and "flag \<noteq> ''--help''" and "act v a = Inl e"
  shows "\<exists>c. e = ConfigError c"
proof (cases "map_of ((parser py_int) :: (string \<times> 'h action) list) flag")
  case None
  with assms(1) obtain la where "act = lit_action la"
    by (auto simp: parser_lookup)
  with assms(4) show ?thesis
    by (auto simp: lit_action_def split: sum.splits)
next
  case (Some own)
  with assms(1) have "(flag, act) \<in> set ((parser py_int) :: (string \<times> 'h action) list)"
    by (auto simp: parser_lookup dest: map_of_SomeD)
  from parser_errors [THEN bspec, OF this] assms(2,3,4) show ?thesis
    by simp
qed

lemma consume_errors:
  assumes "consume (add_argparse_args lit (parser py_int)) xs a seen extras = Inl e"
    and "''-h'' \<notin> fst ` set xs" and "''--help'' \<notin> fst ` set xs"
  shows "\<exists>c. e = ConfigError c"
  using assms
proof (induction xs arbitrary: a seen extras)
  case Nil
  then show ?case by simp
next
  case (Cons kv xs)
  obtain flag v where kv: "kv = (flag, v)" by (cases kv)
  with Cons.prems have fl: "flag \<noteq> ''-h''" "flag \<noteq> ''--help''"
    and rest: "''-h'' \<notin> fst ` set xs" "''--help'' \<notin> fst ` set xs"
    by auto
  show ?case
  proof (cases "map_of (add_argparse_args lit (parser py_int)) flag")
    case None
    with Cons.prems(1) kv Cons.IH rest show ?thesis by auto
  next
    case (Some act)
    show ?thesis
    proof (cases "act v a")
      case (Inl e')
      with Some Cons.prems(1) kv have "e' = e" by simp
      with action_errors [OF Some fl] Inl show ?thesis by simp
    next
      case (Inr a1)
      with Some Cons.prems(1) kv Cons.IH rest show ?thesis by auto
    qed
  qed
qed

lemma consume_seen:
  assumes "consume p xs a seen extras = Inr (a', seen', extras')"
  shows "set seen' \<subseteq> set seen \<union> fst ` set xs"
  using assms
proof (induction xs arbitrary: a seen extras)
  case Nil
  then show ?case by simp
next
  case (Cons kv xs)
  obtain flag v where kv: "kv = (flag, v)" by (cases kv)
  show ?case
  proof (cases "map_of p flag")
    case None
    with Cons.prems kv
    have "consume p xs a seen (extras @ flag # (case v of None \<Rightarrow> [] | Some s \<Rightarrow> [s]))
            = Inr (a', seen', extras')"
      by simp
    from Cons.IH [OF this] show ?thesis by auto
  next
    case (Some act)
    with Cons.prems kv obtain a1 where "consume p xs a1 (flag # seen) extras = Inr (a', seen', extras')"
      by (auto split: sum.splits)
    from Cons.IH [OF this] kv show ?thesis by auto
  qed
qed

text \<open>An option whose action fails ends the parse, wherever it stands.\<close>

lemma consume_failing_option:
  assumes "(flag, v) \<in> set xs" and "map_of p flag = Some act" and "\<And>a. \<exists>e. act v a = Inl e"
  shows "\<exists>e. consume p xs a seen extras = Inl e"
  using assms(1)
proof (induction xs arbitrary: a seen extras)
  case Nil
  then show ?case by simp
next
  case (Cons kv xs)
  obtain flag' v' where kv: "kv = (flag', v')" by (cases kv)
  show ?case
  proof (cases "kv = (flag, v)")
    case True
    with assms(2) assms(3) [of a] show ?thesis by auto
  next
    case False
    with Cons.prems have "(flag, v) \<in> set xs" by simp
    from Cons.IH [OF this] kv show ?thesis
      by (auto split: option.splits sum.splits)
  qed
qed

lemma precision_action:
  "map_of (add_argparse_args lit (parser py_int)) ''--precision''
     = Some (store ''int'' py_int (Some [16, 32]) (\<lambda>v a. a\<lparr>precision := v\<rparr>) ''--precision'')"
  by (simp add: parser_lookup) (simp add: parser_def add_argument_def)

lemma monitor_metric_mode_action:
  "map_of (add_argparse_args lit (parser py_int)) ''--monitor-metric-mode''
     = Some (store ''str'' py_str (Some [''min'', ''max''])
               (\<lambda>v a. a\<lparr>monitor_metric_mode := v\<rparr>) ''--monitor-metric-mode'')"
  by (simp add: parser_lookup) (simp add: parser_def add_argument_def)

lemma parser_at:
  "map_of (parser py_int) ''--train-file''
     = Some (store ''str'' py_str None (\<lambda>v a. a\<lparr>train_file := Some v\<rparr>) ''--train-file'')"
  "map_of (parser py_int) ''--val-file''
     = Some (store ''str'' py_str None (\<lambda>v a. a\<lparr>val_file := Some v\<rparr>) ''--val-file'')"
  "map_of (parser py_int) ''--batch-size''
     = Some (store ''int'' py_int None (\<lambda>v a. a\<lparr>batch_size := v\<rparr>) ''--batch-size'')"
  "map_of (parser py_int) ''--validation'' = Some (store_true (\<lambda>a. a\<lparr>validation := True\<rparr>) ''--validation'')"
  "map_of (parser py_int) ''--num-classes''
     = Some (store ''int'' py_int None (\<lambda>v a. a\<lparr>num_classes := v\<rparr>) ''--num-classes'')"
  "map_of (parser py_int) ''--patience''
     = Some (store ''int'' py_int None (\<lambda>v a. a\<lparr>patience := Some v\<rparr>) ''--patience'')"
  "map_of (parser py_int) ''--log-steps''
     = Some (store ''int'' py_int None (\<lambda>v a. a\<lparr>log_steps := v\<rparr>) ''--log-steps'')"
  "map_of (parser py_int) ''--gpus''
     = Some (store ''None'' py_str None (\<lambda>v a. a\<lparr>gpus := GpusStr v\<rparr>) ''--gpus'')"
  "map_of (parser py_int) ''--workers''
     = Some (store ''int'' py_int None (\<lambda>v a. a\<lparr>workers := v\<rparr>) ''--workers'')"
  "map_of (parser py_int) ''--random-seed''
     = Some (store ''int'' py_int None (\<lambda>v a. a\<lparr>random_seed := Some v\<rparr>) ''--random-seed'')"
  "map_of (parser py_int) ''--pretrained''
     = Some (store ''bool'' py_bool None (\<lambda>v a. a\<lparr>pretrained := v\<rparr>) ''--pretrained'')"
  "map_of (parser py_int) ''--output-dir''
     = Some (store ''str'' py_str None (\<lambda>v a. a\<lparr>output_dir := v\<rparr>) ''--output-dir'')"
  "map_of (parser py_int) ''--model-name''
     = Some (store ''str'' py_str None (\<lambda>v a. a\<lparr>model_name := Some v\<rparr>) ''--model-name'')"
  "map_of (parser py_int) ''--pretrained-weights''
     = Some (store ''str'' py_str None (\<lambda>v a. a\<lparr>pretrained_weights := Some v\<rparr>)
               ''--pretrained-weights'')"
  "map_of (parser py_int) ''--imu'' = Some (store_true (\<lambda>a. a\<lparr>imu := True\<rparr>) ''--imu'')"
  "map_of (parser py_int) ''--model''
     = Some (store ''str'' py_str (Some [''wasr_resnet101'', ''wasr_resnet50'', ''deeplab''])
               (\<lambda>v a. a\<lparr>model := v\<rparr>) ''--model'')"
  "map_of (parser py_int) ''--monitor-metric''
     = Some (store ''str'' py_str None (\<lambda>v a. a\<lparr>monitor_metric := v\<rparr>) ''--monitor-metric'')"
  "map_of (parser py_int) ''--monitor-metric-mode''
     = Some (store ''str'' py_str (Some [''min'', ''max''])
               (\<lambda>v a. a\<lparr>monitor_metric_mode := v\<rparr>) ''--monitor-metric-mode'')"
  "map_of (parser py_int) ''--no-augmentation''
     = Some (store_true (\<lambda>a. a\<lparr>no_augmentation := True\<rparr>) ''--no-augmentation'')"
  "map_of (parser py_int) ''--precision''
     = Some (store ''int'' py_int (Some [16, 32]) (\<lambda>v a. a\<lparr>precision := v\<rparr>) ''--precision'')"
  "map_of (parser py_int) ''--resume-from''
     = Some (store ''str'' py_str None (\<lambda>v a. a\<lparr>resume_from := Some v\<rparr>) ''--resume-from'')"
  by (simp_all add: parser_def add_argument_def)

lemma valid_flag:
  "valid_option py_int (flag, None) \<Longrightarrow>
     flag = ''--validation'' \<or> flag = ''--imu'' \<or> flag = ''--no-augmentation''"
  by (simp add: valid_option_def)

lemma valid_valued:
  "valid_option py_int (flag, Some s) \<Longrightarrow>
     flag \<in> set [''--train-file'', ''--val-file'', ''--gpus'', ''--pretrained'',
                 ''--output-dir'', ''--model-name'', ''--pretrained-weights'',
                 ''--monitor-metric'', ''--resume-from'']
     \<or> (flag \<in> set [''--batch-size'', ''--num-classes'', ''--patience'', ''--log-steps'',
                     ''--workers'', ''--random-seed'']
         \<and> py_int s \<noteq> None)
     \<or> (flag = ''--model'' \<and> s \<in> set [''wasr_resnet101'', ''wasr_resnet50'', ''deeplab''])
     \<or> (flag = ''--monitor-metric-mode'' \<and> s \<in> set [''min'', ''max''])
     \<or> (flag = ''--precision'' \<and> py_int s \<in> set [Some 16, Some 32])"
  unfolding valid_option_def by (simp only: prod.case option.case)

lemma t_flag:
  assumes "flag = ''--validation'' \<or> flag = ''--imu'' \<or> flag = ''--no-augmentation''"
  shows "\<exists>act a'. map_of (parser py_int) flag = Some act \<and> act None a = Inr a'"
  using assms by (elim disjE) (simp_all add: parser_at store_true_def)

lemma t_str:
  assumes "flag \<in> set [''--train-file'', ''--val-file'', ''--gpus'', ''--pretrained'',
                 ''--output-dir'', ''--model-name'', ''--pretrained-weights'',
                 ''--monitor-metric'', ''--resume-from'']"
  shows "\<exists>act a'. map_of (parser py_int) flag = Some act \<and> act (Some s) a = Inr a'"
proof -
  from assms have "flag = ''--train-file'' \<or> flag = ''--val-file'' \<or> flag = ''--gpus''
      \<or> flag = ''--pretrained'' \<or> flag = ''--output-dir'' \<or> flag = ''--model-name''
      \<or> flag = ''--pretrained-weights'' \<or> flag = ''--monitor-metric'' \<or> flag = ''--resume-from''"
    by simp
  then show ?thesis
    by (elim disjE) (simp_all add: parser_at store_def py_str_def py_bool_def)
qed

lemma t_int:
  assumes "flag \<in> set [''--batch-size'', ''--num-classes'', ''--patience'', ''--log-steps'',
                     ''--workers'', ''--random-seed'']" and "py_int s \<noteq> None"
  shows "\<exists>act a'. map_of (parser py_int) flag = Some act \<and> act (Some s) a = Inr a'"
proof -
  from assms(2) obtain n where n: "py_int s = Some n" by blast
  from assms(1) have "flag = ''--batch-size'' \<or> flag = ''--num-classes'' \<or> flag = ''--patience''
      \<or> flag = ''--log-steps'' \<or> flag = ''--workers'' \<or> flag = ''--random-seed''"
    by simp
  then show ?thesis
    by (elim disjE) (simp_all add: parser_at store_def n)
qed

lemma t_choice:
  "s \<in> set [''wasr_resnet101'', ''wasr_resnet50'', ''deeplab''] \<Longrightarrow>
     \<exists>act a'. map_of (parser py_int) ''--model'' = Some act \<and> act (Some s) a = Inr a'"
  "s \<in> set [''min'', ''max''] \<Longrightarrow>
     \<exists>act a'. map_of (parser py_int) ''--monitor-metric-mode'' = Some act \<and> act (Some s) a = Inr a'"
  "py_int s \<in> set [Some 16, Some 32] \<Longrightarrow>
     \<exists>act a'. map_of (parser py_int) ''--precision'' = Some act \<and> act (Some s) a = Inr a'"
  by (auto simp: parser_at store_def py_str_def)

lemma valid_option_succeeds:
  assumes "valid_option py_int (flag, v)"
  shows "\<exists>act a'. map_of (add_argparse_args lit (parser py_int)) flag = Some act \<and> act v a = Inr a'"
proof -
  have "\<exists>act a'. map_of (parser py_int) flag = Some act \<and> act v a = Inr a'"
  proof (cases v)
    case None
    with assms t_flag [OF valid_flag] show ?thesis by blast
  next
    case (Some s)
    with assms valid_valued have
      "flag \<in> set [''--train-file'', ''--val-file'', ''--gpus'', ''--pretrained'',
                 ''--output-dir'', ''--model-name'', ''--pretrained-weights'',
                 ''--monitor-metric'', ''--resume-from'']
       \<or> (flag \<in> set [''--batch-size'', ''--num-classes'', ''--patience'', ''--log-steps'',
                     ''--workers'', ''--random-seed'']
         \<and> py_int s \<noteq> None)
       \<or> (flag = ''--model'' \<and> s \<in> set [''wasr_resnet101'', ''wasr_resnet50'', ''deeplab''])
       \<or> (flag = ''--monitor-metric-mode'' \<and> s \<in> set [''min'', ''max''])
       \<or> (flag = ''--precision'' \<and> py_int s \<in> set [Some 16, Some 32])"
      by blast
    then show ?thesis
      unfolding Some using t_str t_int t_choice by (elim disjE conjE) blast+
  qed
  then show ?thesis
    by (auto simp: parser_lookup)
qed

lemma consume_valid:
  assumes "\<forall>kv \<in> set xs. valid_option py_int kv"
  shows "\<exists>a' seen'. consume (add_argparse_args lit (parser py_int)) xs a seen extras = Inr (a', seen', extras)
           \<and> set seen' = set seen \<union> fst ` set xs"
  using assms
proof (induction xs arbitrary: a seen)
  case Nil
  then show ?case by simp
next
  case (Cons kv xs)
  obtain flag v where kv: "kv = (flag, v)" by (cases kv)
  with Cons.prems have "valid_option py_int (flag, v)" by simp
  from valid_option_succeeds [OF this] obtain act a1 where
    act: "map_of (add_argparse_args lit (parser py_int)) flag = Some act" "act v a = Inr a1"
    by blast
  from Cons.prems have "\<forall>kv \<in> set xs. valid_option py_int kv" by simp
  from Cons.IH [OF this, of a1 "flag # seen"] obtain a' seen' where
    "consume (add_argparse_args lit (parser py_int)) xs a1 (flag # seen) extras = Inr (a', seen', extras)"
    "set seen' = set (flag # seen) \<union> fst ` set xs"
    by blast
  with act kv show ?case by auto
qed

lemma get_arguments_main:
  "get_arguments py_int lit xs = Inl e \<Longrightarrow> main env py_int lit xs = ([], Inl e)"
  by (simp add: main_def)

text \<open>
  Claim C7, as amended. Whatever strings Python's \<open>int\<close> converts (the parameter
  \<open>py_int\<close>): a command line that does not ask for help and that omits
  \<open>--model-name\<close>, or gives \<open>--precision\<close> an argument that \<open>int\<close> does not convert to
  16 or 32, or gives \<open>--monitor-metric-mode\<close> an argument other than \<open>min\<close> and
  \<open>max\<close>, ends in a \<open>ConfigError\<close>, and \<open>main\<close> stops there with no effect at all.
  A command line that names the model and on which every option is one of train.py's
  with a well-formed argument yields a namespace, provided the wrapper's own options
  need not be given.
\<close>

theorem config_resolution:
  "(''-h'' \<notin> fst ` set xs \<and> ''--help'' \<notin> fst ` set xs
      \<and> (''--model-name'' \<notin> fst ` set xs
          \<or> (\<exists>s. (''--precision'', Some s) \<in> set xs \<and> py_int s \<noteq> Some 16 \<and> py_int s \<noteq> Some 32)
          \<or> (\<exists>s. (''--monitor-metric-mode'', Some s) \<in> set xs \<and> s \<noteq> ''min'' \<and> s \<noteq> ''max''))
      \<longrightarrow> (\<exists>c. get_arguments py_int lit xs = Inl (ConfigError c)
                \<and> main env py_int lit xs = ([], Inl (ConfigError c))))
   \<and> ((\<forall>kv \<in> set xs. valid_option py_int kv) \<and> ''--model-name'' \<in> fst ` set xs \<and> lit_required lit = []
      \<longrightarrow> (\<exists>a. get_arguments py_int lit xs = Inr a))"
proof (intro conjI impI)
  let ?p = "add_argparse_args lit (parser py_int)"
  let ?d = "defaults (lit_defaults lit)"
  assume h: "''-h'' \<notin> fst ` set xs \<and> ''--help'' \<notin> fst ` set xs
      \<and> (''--model-name'' \<notin> fst ` set xs
          \<or> (\<exists>s. (''--precision'', Some s) \<in> set xs \<and> py_int s \<noteq> Some 16 \<and> py_int s \<noteq> Some 32)
          \<or> (\<exists>s. (''--monitor-metric-mode'', Some s) \<in> set xs \<and> s \<noteq> ''min'' \<and> s \<noteq> ''max''))"
  then have nohelp: "''-h'' \<notin> fst ` set xs" "''--help'' \<notin> fst ` set xs" by simp_all
  have "\<exists>c. get_arguments py_int lit xs = Inl (ConfigError c)"
  proof (cases "consume ?p xs ?d [] []")
    case (Inl e)
    from consume_errors [OF Inl nohelp] obtain c where "e = ConfigError c" ..
    with Inl show ?thesis
      by (simp add: get_arguments_def parse_args_def)
  next
    case (Inr r)
    obtain a seen extras where r: "r = (a, seen, extras)" by (cases r)
    have no_fail: "\<not> (\<exists>e. consume ?p xs ?d [] [] = Inl e)"
      using Inr by simp
    have "\<not> (\<exists>s. (''--precision'', Some s) \<in> set xs \<and> py_int s \<noteq> Some 16 \<and> py_int s \<noteq> Some 32)"
    proof
      assume "\<exists>s. (''--precision'', Some s) \<in> set xs \<and> py_int s \<noteq> Some 16 \<and> py_int s \<noteq> Some 32"
      then obtain s where s: "(''--precision'', Some s) \<in> set xs" "py_int s \<noteq> Some 16" "py_int s \<noteq> Some 32"
        by blast
      have "\<exists>e. store ''int'' py_int (Some [16, 32]) (\<lambda>v a. a\<lparr>precision := v\<rparr>) ''--precision'' (Some s) b = Inl e"
        for b :: "'a args"
        using s(2,3) by (cases "py_int s") (auto simp: store_def)
      from consume_failing_option [OF s(1) precision_action this] no_fail show False
        by blast
    qed
    moreover
    have "\<not> (\<exists>s. (''--monitor-metric-mode'', Some s) \<in> set xs \<and> s \<noteq> ''min'' \<and> s \<noteq> ''max'')"
    proof
      assume "\<exists>s. (''--monitor-metric-mode'', Some s) \<in> set xs \<and> s \<noteq> ''min'' \<and> s \<noteq> ''max''"
      then obtain s where s: "(''--monitor-metric-mode'', Some s) \<in> set xs" "s \<noteq> ''min''" "s \<noteq> ''max''"
        by blast
      have "\<exists>e. store ''str'' py_str (Some [''min'', ''max''])
               (\<lambda>v a. a\<lparr>monitor_metric_mode := v\<rparr>) ''--monitor-metric-mode'' (Some s) b = Inl e"
        for b :: "'a args"
        using s(2,3) by (simp add: store_def py_str_def)
      from consume_failing_option [OF s(1) monitor_metric_mode_action this] no_fail show False
        by blast
    qed
    ultimately have "''--model-name'' \<notin> fst ` set xs"
      using h by blast
    with consume_seen [OF Inr [unfolded r]] have "''--model-name'' \<notin> set seen"
      by auto
    then have "filter (\<lambda>flag. flag \<notin> set seen) (required_options @ lit_required lit) \<noteq> []"
      by (simp add: required_options_def)
    with Inr r show ?thesis
      by (simp add: get_arguments_def parse_args_def Let_def)
  qed
  then obtain c where "get_arguments py_int lit xs = Inl (ConfigError c)" ..
  with get_arguments_main [OF this, of env]
  show "\<exists>c. get_arguments py_int lit xs = Inl (ConfigError c) \<and> main env py_int lit xs = ([], Inl (ConfigError c))"
    by blast
next
  assume h: "(\<forall>kv \<in> set xs. valid_option py_int kv) \<and> ''--model-name'' \<in> fst ` set xs \<and> lit_required lit = []"
  then have v: "\<forall>kv \<in> set xs. valid_option py_int kv" by simp
  from consume_valid [OF v, of lit "defaults (lit_defaults lit)" "[]" "[]"] obtain a seen where
    c: "consume (add_argparse_args lit (parser py_int)) xs (defaults (lit_defaults lit)) [] [] = Inr (a, seen, [])"
    and s: "set seen = fst ` set xs"
    by auto
  from h s have "filter (\<lambda>flag. flag \<notin> set seen) (required_options @ lit_required lit) = []"
    by (simp add: required_options_def)
  with c show "\<exists>a. get_arguments py_int lit xs = Inr a"
    by (simp add: get_arguments_def parse_args_def Let_def)
qed

lemmas parse_defs =
  get_arguments_def parse_args_def add_argparse_args_def parser_def add_argument_def action_defs
  example_lit_def required_options_def example_int_def is_digit_def digits_value_def

theorem config_resolution_witness:
  "''-h'' \<notin> fst ` set [(''--precision'', Some ''64''), (''--model-name'', Some ''run'')]
   \<and> ''--help'' \<notin> fst ` set [(''--precision'', Some ''64''), (''--model-name'', Some ''run'')]
   \<and> example_int ''64'' = Some 64
   \<and> get_arguments example_int example_lit [(''--precision'', Some ''64''), (''--model-name'', Some ''run'')]
       = Inl (ConfigError (InvalidChoice ''--precision'' ''64''))
   \<and> main example_env example_int example_lit [(''--precision'', Some ''64''), (''--model-name'', Some ''run'')]
       = ([], Inl (ConfigError (InvalidChoice ''--precision'' ''64'')))
   \<and> get_arguments example_int example_lit [(''--validation'', None)]
       = Inl (ConfigError (Required [''--model-name'']))
   \<and> valid_option example_int (''--model-name'', Some ''run'')
   \<and> valid_option example_int (''--precision'', Some ''16'')
   \<and> valid_option example_int (''--imu'', None)
   \<and> lit_required example_lit = []
   \<and> (\<exists>a. get_arguments example_int example_lit
              [(''--model-name'', Some ''run''), (''--precision'', Some ''16''), (''--imu'', None)] = Inr a
          \<and> precision a = 16 \<and> imu a \<and> model_name a = Some ''run'')"
proof -
  let ?bad = "[(''--precision'', Some ''64''), (''--model-name'', Some ''run'')]"
  let ?good = "[(''--model-name'', Some ''run''), (''--precision'', Some ''16''), (''--imu'', None)]"
  have i64: "example_int ''64'' = Some 64" and i16: "example_int ''16'' = Some 16"
    by (simp_all add: example_int_def is_digit_def digits_value_def)
  have nohelp: "''-h'' \<notin> fst ` set ?bad" "''--help'' \<notin> fst ` set ?bad"
    by simp_all
  have bad: "get_arguments example_int example_lit ?bad = Inl (ConfigError (InvalidChoice ''--precision'' ''64''))"
    by (simp add: parse_defs)
  have req: "get_arguments example_int example_lit [(''--validation'', None)]
               = Inl (ConfigError (Required [''--model-name'']))"
    by (simp add: parse_defs)
  have valid: "\<forall>kv \<in> set ?good. valid_option example_int kv"
    by (simp add: valid_option_def i16)
  have lr: "lit_required example_lit = []"
    by (simp add: example_lit_def)
  have good: "\<exists>a. get_arguments example_int example_lit ?good = Inr a
                \<and> precision a = 16 \<and> imu a \<and> model_name a = Some ''run''"
    by (simp add: parse_defs defaults_def)
  from config_resolution [where xs = ?bad and py_int = example_int and lit = example_lit and env = example_env] nohelp i64 bad
  have "main example_env example_int example_lit ?bad = ([], Inl (ConfigError (InvalidChoice ''--precision'' ''64'')))"
    by auto
  moreover from config_resolution [where xs = ?good and py_int = example_int and lit = example_lit and env = example_env] valid lr
  have "\<exists>a. get_arguments example_int example_lit ?good = Inr a"
    by simp
  moreover from valid have "valid_option example_int (''--model-name'', Some ''run'')"
    "valid_option example_int (''--precision'', Some ''16'')" "valid_option example_int (''--imu'', None)"
    by simp_all
  ultimately show ?thesis
    using nohelp i64 bad req lr good by blast
qed

text \<open>
  Claim C7 as stated fails in both directions. A command line that names the model and
  leaves precision and mode alone is still refused when \<open>--model\<close> is not one of the
  three variants, or when an integer option does not carry an integer; and a command
  line that omits the model name but asks for help ends with the help exit, not with
  a \<open>ConfigError\<close>.
\<close>

theorem config_resolution_counterexample:
  "get_arguments example_int example_lit [(''--model-name'', Some ''run''), (''--model'', Some ''resnet'')]
     = Inl (ConfigError (InvalidChoice ''--model'' ''resnet''))
   \<and> get_arguments example_int example_lit [(''--model-name'', Some ''run''), (''--batch-size'', Some ''three'')]
     = Inl (ConfigError (InvalidValue ''--batch-size'' ''int'' ''three''))
   \<and> get_arguments example_int example_lit [(''-h'', None)] = Inl HelpExit"
  by (simp add: parse_defs)

theorem pretrained_is_truthiness_witness:
  "(\<exists>a. get_arguments example_int example_lit [(''--model-name'', Some ''run''), (''--pretrained'', Some ''false'')] = Inr a
       \<and> pretrained a)
   \<and> (\<exists>a. get_arguments example_int example_lit [(''--model-name'', Some ''run''), (''--pretrained'', Some ''False'')] = Inr a
       \<and> pretrained a)
   \<and> (\<exists>a. get_arguments example_int example_lit [(''--model-name'', Some ''run''), (''--pretrained'', Some ''0'')] = Inr a
       \<and> pretrained a)
   \<and> (\<exists>a. get_arguments example_int example_lit [(''--model-name'', Some ''run''), (''--pretrained'', Some [])] = Inr a
       \<and> \<not> pretrained a)
   \<and> (\<exists>a. get_arguments example_int example_lit [(''--model-name'', Some ''run'')] = Inr a \<and> pretrained a)"
proof -
  let ?mn = "(''--model-name'', Some ''run'')"
  have ok: "\<exists>a. get_arguments example_int example_lit [?mn, (''--pretrained'', Some s)] = Inr a" for s
    by (simp add: parse_defs)
  have ok0: "\<exists>a. get_arguments example_int example_lit [?mn] = Inr a"
    by (simp add: parse_defs)
  have val: "\<exists>a. get_arguments example_int example_lit [?mn, (''--pretrained'', Some s)] = Inr a
               \<and> pretrained a = (s \<noteq> [])" for s
  proof -
    from ok obtain a where a: "get_arguments example_int example_lit [?mn, (''--pretrained'', Some s)] = Inr a"
      by blast
    with pretrained_is_truthiness [where py_int = example_int and lit = example_lit and xs = "[?mn]" and s = s and ys = "[]" and a = a] show ?thesis
      by simp
  qed
  have dflt: "\<exists>a. get_arguments example_int example_lit [?mn] = Inr a \<and> pretrained a"
  proof -
    from ok0 obtain a where a: "get_arguments example_int example_lit [?mn] = Inr a"
      by blast
    with pretrained_is_truthiness [where py_int = example_int and lit = example_lit and xs = "[?mn]" and a = a] show ?thesis
      by simp
  qed
  from val [of "''false''"] val [of "''False''"] val [of "''0''"] val [of "[]"] dflt
  show ?thesis by simp
qed

end
